theory Spec2Isabelle
  imports Main "HOL-Library.AList" "HOL-Library.Char_ord" "HOL-Library.List_Lexorder"
begin

section \<open>JavaScript values\<close>

text \<open>
  The connector (index.js) moves JSON-like data between the test framework and the
  Dialogflow client. A value is a primitive, an array or a plain object; an object is the
  list of its own enumerable properties in enumeration order. A string is the list of its
  code units (code units below 256 are representable). A Number is held as the text that
  Number::toString gives for it (\<open>''42''\<close>, \<open>''0.87''\<close>, \<open>''-3''\<close>, \<open>''NaN''\<close>, \<open>''Infinity''\<close>):
  the connector never calculates with the numbers it is handed, it tests their truthiness
  and prints them.
\<close>

datatype prim = PUndefined | PNull | PBool bool | PNum string | PStr string

datatype jsval = JPrim prim | JArr "jsval list" | JObj "(string \<times> jsval) list"

abbreviation JUndefined :: jsval where "JUndefined \<equiv> JPrim PUndefined"
abbreviation JNull :: jsval where "JNull \<equiv> JPrim PNull"
abbreviation JBool :: "bool \<Rightarrow> jsval" where "JBool b \<equiv> JPrim (PBool b)"
abbreviation JNum :: "string \<Rightarrow> jsval" where "JNum n \<equiv> JPrim (PNum n)"
abbreviation JStr :: "string \<Rightarrow> jsval" where "JStr s \<equiv> JPrim (PStr s)"

text \<open>An exception value: \<open>new Error(message)\<close>, or a TypeError raised by the runtime.\<close>

datatype js_error = Error string | TypeError string

fun message :: "js_error \<Rightarrow> string" where
  "message (Error m) = m"
| "message (TypeError m) = m"

text \<open>A call either throws or returns; a promise is resolved or rejected.\<close>

datatype 'a completion = Throw js_error | Return 'a

datatype 'a promise = Resolved 'a | Rejected js_error

text \<open>ToBoolean.\<close>

fun prim_truthy :: "prim \<Rightarrow> bool" where
  "prim_truthy PUndefined = False"
| "prim_truthy PNull = False"
| "prim_truthy (PBool b) = b"
| "prim_truthy (PNum n) = (n \<noteq> ''0'' \<and> n \<noteq> ''NaN'')"
| "prim_truthy (PStr s) = (s \<noteq> [])"

fun truthy :: "jsval \<Rightarrow> bool" where
  "truthy (JPrim p) = prim_truthy p"
| "truthy (JArr xs) = True"
| "truthy (JObj kvs) = True"

text \<open>Property read \<open>o[k]\<close>: \<open>undefined\<close> when the object has no such property.\<close>

definition get_prop :: "(string \<times> jsval) list \<Rightarrow> string \<Rightarrow> jsval" where
  "get_prop kvs k = (case map_of kvs k of None \<Rightarrow> JUndefined | Some v \<Rightarrow> v)"

fun member_of :: "jsval \<Rightarrow> string \<Rightarrow> jsval" where
  "member_of (JObj kvs) k = get_prop kvs k"
| "member_of v k = JUndefined"

text \<open>lodash \<open>_.isObject\<close>, \<open>_.isArray\<close>, \<open>_.isBoolean\<close>, \<open>_.isString\<close>, \<open>_.isNil\<close>.\<close>

fun isObject :: "jsval \<Rightarrow> bool" where
  "isObject (JPrim p) = False"
| "isObject v = True"

fun isArray :: "jsval \<Rightarrow> bool" where
  "isArray (JArr xs) = True"
| "isArray v = False"

fun isBoolean :: "jsval \<Rightarrow> bool" where
  "isBoolean (JPrim (PBool b)) = True"
| "isBoolean v = False"

fun isString :: "jsval \<Rightarrow> bool" where
  "isString (JPrim (PStr s)) = True"
| "isString v = False"

fun isNil :: "prim \<Rightarrow> bool" where
  "isNil PUndefined = True"
| "isNil PNull = True"
| "isNil p = False"

subsection \<open>ToString\<close>

fun prim_to_string :: "prim \<Rightarrow> string" where
  "prim_to_string PUndefined = ''undefined''"
| "prim_to_string PNull = ''null''"
| "prim_to_string (PBool b) = (if b then ''true'' else ''false'')"
| "prim_to_string (PNum n) = n"
| "prim_to_string (PStr s) = s"

text \<open>
  ToString of an object calls its \<open>toString\<close>, then its \<open>valueOf\<close>, and raises a TypeError
  when neither is callable and gives a primitive (OrdinaryToPrimitive). A plain object
  inherits Object.prototype.toString, which prints \<open>[object Object]\<close>; an own property
  named \<open>toString\<close> shadows it, and no value of this data model is callable, so such an
  object has no string conversion (the inherited \<open>valueOf\<close> returns the object itself).
  An array prints its elements separated by commas, \<open>undefined\<close> and \<open>null\<close> as nothing.
\<close>

fun to_string :: "jsval \<Rightarrow> js_error + string"
  and join_elements :: "jsval list \<Rightarrow> js_error + string" where
  "to_string (JPrim p) = Inr (prim_to_string p)"
| "to_string (JArr xs) = join_elements xs"
| "to_string (JObj kvs) =
     (if ''toString'' \<in> set (map fst kvs)
      then Inl (TypeError ''Cannot convert object to primitive value'')
      else Inr ''[object Object]'')"
| "join_elements [] = Inr []"
| "join_elements (x # xs) =
     (case (if x = JUndefined \<or> x = JNull then Inr [] else to_string x) of
        Inl e \<Rightarrow> Inl e
      | Inr s \<Rightarrow>
          (case join_elements xs of
             Inl e \<Rightarrow> Inl e
           | Inr r \<Rightarrow> Inr (if xs = [] then s else s @ '','' @ r)))"

subsection \<open>parseInt\<close>

text \<open>
  The value of \<open>parseInt(x)\<close> with no radix: \<open>NaN\<close> or an integer (the mathematical value of
  the digits; the runtime stores the nearest double).
\<close>

datatype jsnum = NaN | Num int

definition is_white :: "char \<Rightarrow> bool" where
  "is_white c = (of_char c \<in> {9::nat, 10, 11, 12, 13, 32, 160})"

definition digit_value :: "char \<Rightarrow> nat option" where
  "digit_value c =
     (let n = (of_char c :: nat) in
      if 48 \<le> n \<and> n \<le> 57 then Some (n - 48)
      else if 97 \<le> n \<and> n \<le> 122 then Some (n - 87)
      else if 65 \<le> n \<and> n \<le> 90 then Some (n - 55)
      else None)"

definition is_digit :: "nat \<Rightarrow> char \<Rightarrow> bool" where
  "is_digit radix c = (case digit_value c of None \<Rightarrow> False | Some d \<Rightarrow> d < radix)"

definition digits_value :: "nat \<Rightarrow> string \<Rightarrow> nat" where
  "digits_value radix z =
     foldl (\<lambda>acc c. acc * radix + (case digit_value c of None \<Rightarrow> 0 | Some d \<Rightarrow> d)) 0 z"

definition parse_digits :: "int \<Rightarrow> nat \<Rightarrow> string \<Rightarrow> jsnum" where
  "parse_digits sign radix s =
     (let z = takeWhile (is_digit radix) s in
      if z = [] then NaN else Num (sign * int (digits_value radix z)))"

definition parseInt_string :: "string \<Rightarrow> jsnum" where
  "parseInt_string input =
     (let s = dropWhile is_white input;
          sign = (if s \<noteq> [] \<and> hd s = CHR ''-'' then - 1 else 1);
          s1 = (if s \<noteq> [] \<and> (hd s = CHR ''+'' \<or> hd s = CHR ''-'') then tl s else s)
      in if take 2 s1 = ''0x'' \<or> take 2 s1 = ''0X''
         then parse_digits sign 16 (drop 2 s1)
         else parse_digits sign 10 s1)"

definition parseInt :: "jsval \<Rightarrow> js_error + jsnum" where
  "parseInt v = (case to_string v of Inl e \<Rightarrow> Inl e | Inr s \<Rightarrow> Inr (parseInt_string s))"


text \<open>The decimal digits of an array index, as a template literal prints it.\<close>

fun string_of_nat :: "nat \<Rightarrow> string" where
  "string_of_nat n =
     (if n < 10 then [char_of (48 + n)]
      else string_of_nat (n div 10) @ [char_of (48 + n mod 10)])"

declare string_of_nat.simps [simp del]

text \<open>
  The own enumerable properties that \<open>_.keys\<close> and \<open>Object.assign\<close> see: those of an
  object, the indices of an array or of a string, none for the other primitives.
\<close>

fun own_entries :: "jsval \<Rightarrow> (string \<times> jsval) list" where
  "own_entries (JObj kvs) = kvs"
| "own_entries (JArr xs) = map (\<lambda>i. (string_of_nat i, xs ! i)) [0..<length xs]"
| "own_entries (JPrim (PStr s)) = map (\<lambda>i. (string_of_nat i, JStr [s ! i])) [0..<length s]"
| "own_entries (JPrim p) = []"

text \<open>\<open>Object.assign(target, source)\<close> on property lists: a later value replaces an earlier one.\<close>

definition assign :: "(string \<times> 'v) list \<Rightarrow> (string \<times> 'v) list \<Rightarrow> (string \<times> 'v) list" where
  "assign target source = foldl (\<lambda>t (k, v). AList.update k v t) target source"

section \<open>Protobuf structures\<close>

text \<open>
  A \<open>google.protobuf.Value\<close> as the client hands it over: its \<open>kind\<close> names the member that
  holds the value. \<open>Scalar k v\<close> has one of the four scalar kinds and \<open>v\<close> is the member read,
  \<open>field[field.kind]\<close>; \<open>ListValue None\<close> is a list whose \<open>values\<close> member is missing;
  \<open>OtherKind k\<close> is a value of any other kind \<open>k\<close>.
\<close>

datatype scalar_kind = numberValue | stringValue | boolValue | nullValue

datatype field =
    Scalar scalar_kind prim
  | StructValue "(string \<times> field) list"
  | ListValue "field list option"
  | OtherKind string

type_synonym struct = "(string \<times> field) list"

section \<open>The connector\<close>

subsection \<open>Capabilities and collaborators\<close>

definition DIALOGFLOW_PROJECT_ID :: string where
  "DIALOGFLOW_PROJECT_ID = ''DIALOGFLOW_PROJECT_ID''"
definition DIALOGFLOW_CLIENT_EMAIL :: string where
  "DIALOGFLOW_CLIENT_EMAIL = ''DIALOGFLOW_CLIENT_EMAIL''"
definition DIALOGFLOW_PRIVATE_KEY :: string where
  "DIALOGFLOW_PRIVATE_KEY = ''DIALOGFLOW_PRIVATE_KEY''"
definition DIALOGFLOW_LANGUAGE_CODE :: string where
  "DIALOGFLOW_LANGUAGE_CODE = ''DIALOGFLOW_LANGUAGE_CODE''"
definition DIALOGFLOW_INPUT_CONTEXT_NAME :: string where
  "DIALOGFLOW_INPUT_CONTEXT_NAME = ''DIALOGFLOW_INPUT_CONTEXT_NAME''"
definition DIALOGFLOW_INPUT_CONTEXT_LIFESPAN :: string where
  "DIALOGFLOW_INPUT_CONTEXT_LIFESPAN = ''DIALOGFLOW_INPUT_CONTEXT_LIFESPAN''"
definition DIALOGFLOW_INPUT_CONTEXT_PARAMETERS :: string where
  "DIALOGFLOW_INPUT_CONTEXT_PARAMETERS = ''DIALOGFLOW_INPUT_CONTEXT_PARAMETERS''"
definition DIALOGFLOW_OUTPUT_PLATFORM :: string where
  "DIALOGFLOW_OUTPUT_PLATFORM = ''DIALOGFLOW_OUTPUT_PLATFORM''"
definition DIALOGFLOW_FORCE_INTENT_RESOLUTION :: string where
  "DIALOGFLOW_FORCE_INTENT_RESOLUTION = ''DIALOGFLOW_FORCE_INTENT_RESOLUTION''"
definition DIALOGFLOW_BUTTON_EVENTS :: string where
  "DIALOGFLOW_BUTTON_EVENTS = ''DIALOGFLOW_BUTTON_EVENTS''"
definition DIALOGFLOW_ENABLE_KNOWLEDGEBASE :: string where
  "DIALOGFLOW_ENABLE_KNOWLEDGEBASE = ''DIALOGFLOW_ENABLE_KNOWLEDGEBASE''"
definition DIALOGFLOW_FALLBACK_INTENTS :: string where
  "DIALOGFLOW_FALLBACK_INTENTS = ''DIALOGFLOW_FALLBACK_INTENTS''"

definition Defaults :: "(string \<times> jsval) list" where
  "Defaults =
     [(DIALOGFLOW_LANGUAGE_CODE, JStr ''en-US''),
      (DIALOGFLOW_FORCE_INTENT_RESOLUTION, JBool True),
      (DIALOGFLOW_BUTTON_EVENTS, JBool True),
      (DIALOGFLOW_ENABLE_KNOWLEDGEBASE, JBool False),
      (DIALOGFLOW_FALLBACK_INTENTS, JArr [JStr ''Default Fallback Intent''])]"

text \<open>
  What the connector calls and does not implement: the path templates of the Dialogflow
  client, the struct codec of \<open>./structjson\<close>, \<open>JSON.parse\<close> (\<open>None\<close> when it throws) and
  \<open>mime.lookup\<close> (\<open>None\<close> when it returns \<open>false\<close>). They are parameters of the model.
\<close>

record env =
  contextPath :: "jsval \<Rightarrow> jsval \<Rightarrow> jsval \<Rightarrow> string"
  sessionPathOf :: "jsval \<Rightarrow> jsval \<Rightarrow> string"
  jsonToStructProto :: "jsval \<Rightarrow> struct"
  structProtoToJson :: "struct option \<Rightarrow> jsval"
  JSON_parse :: "string \<Rightarrow> jsval option"
  mime_lookup :: "string \<Rightarrow> string option"

subsection \<open>Contexts\<close>

text \<open>
  A context of the request. Its \<open>parameters\<close> member is missing, or holds the falsy value
  that \<open>a && b\<close> passed through, or holds a struct.
\<close>

datatype ctx_parameters = NoParameters | FalsyParameters jsval | StructParameters struct

record df_context =
  ctx_name :: string
  ctx_lifespanCount :: jsnum
  ctx_parameters :: ctx_parameters

text \<open>
  \<open>_createCustomContext\<close>. The \<open>try\<close> block holds the \<open>parseInt\<close> call alone: when it
  throws, the \<open>catch\<close> block sets the lifespan to 1.
\<close>

definition createCustomContext ::
  "env \<Rightarrow> (string \<times> jsval) list \<Rightarrow> jsval \<Rightarrow> string \<Rightarrow> jsval \<Rightarrow> jsval \<Rightarrow> df_context" where
  "createCustomContext E caps conversationId contextName contextLifespan contextParameters =
     (let contextPath = contextPath E (get_prop caps DIALOGFLOW_PROJECT_ID) conversationId
                          (JStr contextName);
          contextLifespan' = (case parseInt contextLifespan of
                                Inr n \<Rightarrow> n
                              | Inl err \<Rightarrow> Num 1)
      in \<lparr> ctx_name = contextPath,
           ctx_lifespanCount = contextLifespan',
           ctx_parameters = (if truthy contextParameters
                             then StructParameters (jsonToStructProto E contextParameters)
                             else NoParameters) \<rparr>)"

text \<open>\<open>_extractCustomContexts\<close>: one context for each key of \<open>msg.SET_DIALOGFLOW_CONTEXT\<close>.\<close>

definition extractCustomContexts ::
  "env \<Rightarrow> (string \<times> jsval) list \<Rightarrow> jsval \<Rightarrow> jsval \<Rightarrow> df_context list" where
  "extractCustomContexts E caps conversationId set_context =
     (if truthy set_context
      then map (\<lambda>(contextName, val).
                  if isObject val
                  then createCustomContext E caps conversationId contextName
                         (member_of val ''lifespan'') (member_of val ''parameters'')
                  else createCustomContext E caps conversationId contextName val JUndefined)
             (own_entries set_context)
      else [])"

text \<open>\<open>Array.prototype.findIndex\<close>: the first index whose element passes, or \<open>-1\<close>.\<close>

definition findIndex :: "('a \<Rightarrow> bool) \<Rightarrow> 'a list \<Rightarrow> int" where
  "findIndex P xs =
     (let n = length (takeWhile (\<lambda>x. \<not> P x) xs) in if n < length xs then int n else - 1)"

text \<open>The body of the \<open>customContexts.forEach\<close> loop of \<open>UserSays\<close>, and the loop.\<close>

definition mergeContext :: "df_context list \<Rightarrow> df_context \<Rightarrow> df_context list" where
  "mergeContext contexts customContext =
     (let index = findIndex (\<lambda>c. ctx_name c = ctx_name customContext) contexts
      in if index \<ge> 0 then contexts[nat index := customContext]
         else contexts @ [customContext])"

definition mergeContexts :: "df_context list \<Rightarrow> df_context list \<Rightarrow> df_context list" where
  "mergeContexts contexts customContexts = foldl mergeContext contexts customContexts"


subsection \<open>The response of detectIntent\<close>

text \<open>
  A member that may be missing is an \<open>option\<close>: \<open>None\<close> is \<open>undefined\<close> or \<open>null\<close>. Repeated
  members of a protobuf message are lists.
\<close>

record image =
  imageUri :: "string option"
  accessibilityText :: "string option"

record simple_response =
  textToSpeech :: "string option"

record card_button =
  cb_text :: "string option"
  cb_postback :: "string option"

record card =
  card_title :: "string option"
  card_imageUri :: "string option"
  card_buttons :: "card_button list option"

record basic_card_button =
  bcb_title :: "string option"
  bcb_openUriAction :: "string option option"

record basic_card =
  bc_title :: "string option"
  bc_image :: "image option"
  bc_buttons :: "basic_card_button list option"

record select_item =
  item_title :: "string option"
  item_description :: "string option"
  item_image :: "image option"
  item_info :: "string option option"

record list_select =
  ls_title :: "string option"
  ls_items :: "select_item list"

record suggestion =
  sg_title :: "string option"

record link_out_suggestion =
  destinationName :: "string option"
  lo_uri :: "string option"

text \<open>
  A fulfillment message. \<open>fm_text\<close> is \<open>text.text\<close>, \<open>fm_simpleResponses\<close> is
  \<open>simpleResponses.simpleResponses\<close>, \<open>fm_quickReplies\<close> is \<open>quickReplies.quickReplies\<close>,
  \<open>fm_carouselSelect\<close> is \<open>carouselSelect.items\<close>, \<open>fm_suggestions\<close> is
  \<open>suggestions.suggestions\<close> (which the code lets be missing); \<open>item_info\<close> is \<open>info.key\<close>
  and \<open>bcb_openUriAction\<close> is \<open>openUriAction.uri\<close>.
\<close>

record fulfillment =
  fm_platform :: "string option"
  fm_text :: "string list option"
  fm_simpleResponses :: "simple_response list option"
  fm_image :: "image option"
  fm_quickReplies :: "string list option"
  fm_card :: "card option"
  fm_basicCard :: "basic_card option"
  fm_listSelect :: "list_select option"
  fm_carouselSelect :: "select_item list option"
  fm_suggestions :: "suggestion list option option"
  fm_linkOutSuggestion :: "link_out_suggestion option"

record output_context =
  oc_name :: string
  oc_lifespanCount :: jsval
  oc_parameters :: "struct option"

record intent =
  displayName :: string

text \<open>\<open>qr_parameters\<close>: \<open>None\<close> when \<open>parameters\<close> is missing, \<open>Some None\<close> when its \<open>fields\<close> are.\<close>

record queryResult =
  qr_outputContexts :: "output_context list"
  qr_intent :: "intent option"
  qr_intentDetectionConfidence :: jsval
  qr_parameters :: "struct option option"
  qr_fulfillmentMessages :: "fulfillment list"

record response =
  queryResult :: queryResult

subsection \<open>Intent and entities\<close>

text \<open>The \<open>nlp.intent\<close> of a bot message; the empty record \<open>{}\<close> is \<open>None\<close> in \<open>extractIntent\<close>.\<close>

record nlp_intent =
  intent_name :: string
  intent_confidence :: jsval
  incomprehension :: "bool option"

text \<open>
  \<open>x.includes(d)\<close> for a string \<open>d\<close>: membership in an array (objects are compared by
  identity, so only a string element can equal \<open>d\<close>), the substring test on a string, a
  TypeError on every other value, which has no \<open>includes\<close> method.
\<close>

definition string_includes :: "string \<Rightarrow> string \<Rightarrow> bool" where
  "string_includes s d = list_ex (\<lambda>i. take (length d) (drop i s) = d) [0..<Suc (length s)]"

fun js_includes :: "jsval \<Rightarrow> string \<Rightarrow> js_error + bool" where
  "js_includes (JArr xs) d = Inr (JStr d \<in> set xs)"
| "js_includes (JPrim (PStr s)) d = Inr (string_includes s d)"
| "js_includes v d = Inl (TypeError ''includes is not a function'')"

definition extractIntent :: "(string \<times> jsval) list \<Rightarrow> response \<Rightarrow> js_error + nlp_intent option" where
  "extractIntent caps response =
     (case qr_intent (queryResult response) of
        Some i \<Rightarrow>
          (case js_includes (get_prop caps DIALOGFLOW_FALLBACK_INTENTS) (displayName i) of
             Inl err \<Rightarrow> Inl err
           | Inr b \<Rightarrow>
               Inr (Some \<lparr> intent_name = displayName i,
                           intent_confidence = qr_intentDetectionConfidence (queryResult response),
                           incomprehension = (if b then Some True else None) \<rparr>))
      | None \<Rightarrow> Inr None)"

record entity =
  entity_name :: string
  entity_value :: string

text \<open>
  \<open>_extractEntityValues\<close> and \<open>_extractEntitiesFromFields\<close>; \<open>extractListValues key i\<close> is the
  \<open>reduce\<close> over the values of a list from index \<open>i\<close> on.
\<close>

fun extractEntityValues :: "string \<Rightarrow> field \<Rightarrow> entity list"
  and extractEntitiesFromFields :: "string \<Rightarrow> (string \<times> field) list \<Rightarrow> entity list"
  and extractListValues :: "string \<Rightarrow> nat \<Rightarrow> field list \<Rightarrow> entity list" where
  "extractEntityValues key (Scalar k v) =
     (if \<not> isNil v \<and> (\<not> isString (JPrim v) \<or> length (prim_to_string v) > 0)
      then [\<lparr> entity_name = key, entity_value = prim_to_string v \<rparr>]
      else [])"
| "extractEntityValues key (StructValue fs) = extractEntitiesFromFields key fs"
| "extractEntityValues key (ListValue None) = []"
| "extractEntityValues key (ListValue (Some vs)) =
     (if length vs > 0 then extractListValues key 0 vs else [])"
| "extractEntityValues key (OtherKind k) = []"
| "extractEntitiesFromFields keyPrefix [] = []"
| "extractEntitiesFromFields keyPrefix ((key, f) # fs) =
     extractEntityValues ((if keyPrefix \<noteq> [] then keyPrefix @ ''.'' else []) @ key) f
       @ extractEntitiesFromFields keyPrefix fs"
| "extractListValues key i [] = []"
| "extractListValues key i (lv # vs) =
     extractEntityValues (key @ ''.'' @ string_of_nat i) lv @ extractListValues key (Suc i) vs"

definition extractEntities :: "response \<Rightarrow> entity list" where
  "extractEntities response =
     (case qr_parameters (queryResult response) of
        Some (Some fs) \<Rightarrow> extractEntitiesFromFields [] fs
      | _ \<Rightarrow> [])"


subsection \<open>Bot messages\<close>

text \<open>
  The value of \<open>a && b\<close>: the falsy \<open>a\<close> itself (\<open>Falsy None\<close> for \<open>undefined\<close> or \<open>null\<close>,
  \<open>Falsy (Some s)\<close> for a falsy string, which is the empty one), or else \<open>b\<close>.
\<close>

datatype 'a guarded = Falsy "string option" | Guarded 'a

definition and_string :: "string option \<Rightarrow> (string \<Rightarrow> 'a) \<Rightarrow> 'a guarded" where
  "and_string a b =
     (case a of None \<Rightarrow> Falsy None
      | Some s \<Rightarrow> if s = [] then Falsy (Some s) else Guarded (b s))"

definition and_object :: "'b option \<Rightarrow> ('b \<Rightarrow> 'a) \<Rightarrow> 'a guarded" where
  "and_object a b = (case a of None \<Rightarrow> Falsy None | Some x \<Rightarrow> Guarded (b x))"

record media =
  mediaUri :: "string option"
  mimeType :: string
  altText :: "string option"

record bot_button =
  button_text :: "string option"
  button_payload :: "string option"

record bot_card =
  bot_card_text :: "string option"
  bot_card_subtext :: "string option"
  bot_card_image :: "media guarded"
  bot_card_buttons :: "bot_button list guarded"

record nlp =
  nlp_intent :: "nlp_intent option"
  nlp_entities :: "entity list"

record botMsg =
  sender :: string
  sourceData :: queryResult
  nlp :: nlp
  messageText :: "string option"
  media :: "media list option"
  buttons :: "bot_button list guarded option"
  cards :: "bot_card list option"

text \<open>\<open>mime.lookup(uri) || 'application/unknown'\<close>; \<open>mime.lookup\<close> of a missing uri is \<open>false\<close>.\<close>

definition mimeTypeOf :: "env \<Rightarrow> string option \<Rightarrow> string" where
  "mimeTypeOf E uri =
     (case uri of
        None \<Rightarrow> ''application/unknown''
      | Some u \<Rightarrow>
          (case mime_lookup E u of
             None \<Rightarrow> ''application/unknown''
           | Some m \<Rightarrow> if m = [] then ''application/unknown'' else m))"

definition imageOf :: "env \<Rightarrow> image \<Rightarrow> media" where
  "imageOf E i =
     \<lparr> mediaUri = imageUri i, mimeType = mimeTypeOf E (imageUri i),
       altText = accessibilityText i \<rparr>"

text \<open>The card of an item of a \<open>listSelect\<close> or of a \<open>carouselSelect\<close>.\<close>

definition itemCard :: "env \<Rightarrow> select_item \<Rightarrow> bot_card" where
  "itemCard E item =
     \<lparr> bot_card_text = item_title item,
       bot_card_subtext = item_description item,
       bot_card_image = and_object (item_image item) (imageOf E),
       bot_card_buttons =
         (case item_info item of
            None \<Rightarrow> Falsy None
          | Some key \<Rightarrow> and_string key (\<lambda>k. [\<lparr> button_text = Some k, button_payload = None \<rparr>])) \<rparr>"

text \<open>
  The body of the \<open>fulfillmentMessages.forEach\<close> loop of \<open>UserSays\<close>: the bot message of
  one fulfillment message, \<open>None\<close> when the response is not accepted. Reading
  \<open>simpleResponses[0].textToSpeech\<close> of an empty list is a TypeError.
\<close>

definition newBotMsg :: "queryResult \<Rightarrow> nlp \<Rightarrow> botMsg" where
  "newBotMsg qr n =
     \<lparr> sender = ''bot'', sourceData = qr, nlp = n, messageText = None, media = None,
       buttons = None, cards = None \<rparr>"

definition fulfillmentBotMsg ::
  "env \<Rightarrow> queryResult \<Rightarrow> nlp \<Rightarrow> fulfillment \<Rightarrow> js_error + botMsg option" where
  "fulfillmentBotMsg E qr n fulfillmentMessage =
     (let botMsg = newBotMsg qr n in
      case fm_text fulfillmentMessage of
        Some t \<Rightarrow> Inr (Some (botMsg\<lparr> messageText := (case t of [] \<Rightarrow> None | x # _ \<Rightarrow> Some x) \<rparr>))
      | None \<Rightarrow>
      (case fm_simpleResponses fulfillmentMessage of
        Some rs \<Rightarrow>
          (case rs of
             [] \<Rightarrow> Inl (TypeError ''Cannot read property textToSpeech of undefined'')
           | r # _ \<Rightarrow> Inr (Some (botMsg\<lparr> messageText := textToSpeech r \<rparr>)))
      | None \<Rightarrow>
      (case fm_image fulfillmentMessage of
        Some i \<Rightarrow>
          Inr (Some (botMsg\<lparr> media := Some [\<lparr> mediaUri = imageUri i,
                                              mimeType = mimeTypeOf E (imageUri i),
                                              altText = None \<rparr>] \<rparr>))
      | None \<Rightarrow>
      (case fm_quickReplies fulfillmentMessage of
        Some qs \<Rightarrow>
          Inr (Some (botMsg\<lparr> buttons :=
            Some (Guarded (map (\<lambda>q. \<lparr> button_text = Some q, button_payload = None \<rparr>) qs)) \<rparr>))
      | None \<Rightarrow>
      (case fm_card fulfillmentMessage of
        Some c \<Rightarrow>
          Inr (Some (botMsg\<lparr>
            messageText := card_title c,
            cards := Some [\<lparr> bot_card_text = card_title c,
                             bot_card_subtext = None,
                             bot_card_image =
                               and_string (card_imageUri c)
                                 (\<lambda>u. \<lparr> mediaUri = Some u, mimeType = mimeTypeOf E (Some u),
                                        altText = None \<rparr>),
                             bot_card_buttons =
                               and_object (card_buttons c)
                                 (map (\<lambda>q. \<lparr> button_text = cb_text q,
                                              button_payload = cb_postback q \<rparr>)) \<rparr>] \<rparr>))
      | None \<Rightarrow>
      (case fm_basicCard fulfillmentMessage of
        Some c \<Rightarrow>
          Inr (Some (botMsg\<lparr>
            messageText := bc_title c,
            cards := Some [\<lparr> bot_card_text = bc_title c,
                             bot_card_subtext = None,
                             bot_card_image = and_object (bc_image c) (imageOf E),
                             bot_card_buttons =
                               and_object (bc_buttons c)
                                 (map (\<lambda>q. \<lparr> button_text = bcb_title q,
                                              button_payload =
                                                (case bcb_openUriAction q of
                                                   None \<Rightarrow> None | Some u \<Rightarrow> u) \<rparr>)) \<rparr>] \<rparr>))
      | None \<Rightarrow>
      (case fm_listSelect fulfillmentMessage of
        Some l \<Rightarrow>
          Inr (Some (botMsg\<lparr> messageText := ls_title l,
                             cards := Some (map (itemCard E) (ls_items l)) \<rparr>))
      | None \<Rightarrow>
      (case fm_carouselSelect fulfillmentMessage of
        Some items \<Rightarrow> Inr (Some (botMsg\<lparr> cards := Some (map (itemCard E) items) \<rparr>))
      | None \<Rightarrow>
      (case fm_suggestions fulfillmentMessage of
        Some sgs \<Rightarrow>
          Inr (Some (botMsg\<lparr> buttons :=
            Some (and_object sgs
                    (map (\<lambda>q. \<lparr> button_text = sg_title q, button_payload = None \<rparr>))) \<rparr>))
      | None \<Rightarrow>
      (case fm_linkOutSuggestion fulfillmentMessage of
        Some l \<Rightarrow>
          Inr (Some (botMsg\<lparr> buttons :=
            Some (Guarded [\<lparr> button_text = destinationName l, button_payload = lo_uri l \<rparr>]) \<rparr>))
      | None \<Rightarrow> Inr None))))))))))"

text \<open>
  The \<open>forEach\<close> loop. Each accepted message is handed to \<open>queueBotSays\<close> by a zero-delay
  timer, so the messages scheduled before a throw are still delivered. The result is the
  messages scheduled, in order, whether one was accepted, and the error thrown, if any.
\<close>

fun deliverAll ::
  "env \<Rightarrow> queryResult \<Rightarrow> nlp \<Rightarrow> fulfillment list \<Rightarrow> botMsg list \<times> bool \<times> js_error option" where
  "deliverAll E qr n [] = ([], False, None)"
| "deliverAll E qr n (f # fs) =
     (case fulfillmentBotMsg E qr n f of
        Inl err \<Rightarrow> ([], False, Some err)
      | Inr None \<Rightarrow> deliverAll E qr n fs
      | Inr (Some m) \<Rightarrow>
          (case deliverAll E qr n fs of (ms, accepted, err) \<Rightarrow> (m # ms, True, err)))"

text \<open>The platform filter of \<open>UserSays\<close>, with its fall back to the default platform.\<close>

definition defaultPlatform :: "fulfillment \<Rightarrow> bool" where
  "defaultPlatform f =
     (fm_platform f = Some ''PLATFORM_UNSPECIFIED'' \<or> fm_platform f = None \<or> fm_platform f = Some [])"

definition platformEquals :: "fulfillment \<Rightarrow> jsval \<Rightarrow> bool" where
  "platformEquals f p = (case fm_platform f of None \<Rightarrow> False | Some s \<Rightarrow> p = JStr s)"

definition selectFulfillmentMessages :: "(string \<times> jsval) list \<Rightarrow> fulfillment list \<Rightarrow> fulfillment list" where
  "selectFulfillmentMessages caps fms =
     (let platform = get_prop caps DIALOGFLOW_OUTPUT_PLATFORM;
          fulfillmentMessages =
            filter (\<lambda>f. (truthy platform \<and> platformEquals f platform)
                       \<or> (\<not> truthy platform \<and> defaultPlatform f)) fms
      in if fulfillmentMessages = [] \<and> truthy platform
         then filter defaultPlatform fms
         else fulfillmentMessages)"


subsection \<open>State of a connector\<close>

text \<open>
  A member of \<open>queryParams\<close>: the context list the connector keeps under \<open>contexts\<close>, or any
  other value. \<open>queryParams\<close> itself is a property list, \<open>None\<close> when it is \<open>null\<close> or was
  never set.
\<close>

datatype qval = QContexts "df_context list" | QVal jsval

datatype client = SessionsClient | SessionsClient_v2beta1

record connector =
  caps :: "(string \<times> jsval) list"
  sessionOpts :: "(jsval \<times> jsval) option"
  conversationId :: jsval
  queryParams :: "(string \<times> qval) list option"
  kbNames :: jsval
  sessionClient :: "client option"
  sessionPath :: "string option"

definition BotiumConnectorDialogflow :: "(string \<times> jsval) list \<Rightarrow> connector" where
  "BotiumConnectorDialogflow cs =
     \<lparr> caps = cs, sessionOpts = None, conversationId = JUndefined, queryParams = None,
       kbNames = JUndefined, sessionClient = None, sessionPath = None \<rparr>"

text \<open>\<open>_getContextSuffixes\<close>: the sorted capability keys that start with the name prefix.\<close>

definition startsWith :: "string \<Rightarrow> string \<Rightarrow> bool" where
  "startsWith k p = (take (length p) k = p)"

definition getContextSuffixes :: "(string \<times> jsval) list \<Rightarrow> string list" where
  "getContextSuffixes cs =
     map (drop (length DIALOGFLOW_INPUT_CONTEXT_NAME))
       (sort (filter (\<lambda>k. startsWith k DIALOGFLOW_INPUT_CONTEXT_NAME) (map fst cs)))"

subsection \<open>Validate, Build, Start, Stop, Clean\<close>

text \<open>The \<open>contextSuffixes.forEach\<close> check of \<open>Validate\<close>: the first suffix that fails throws.\<close>

fun checkContextSuffixes :: "(string \<times> jsval) list \<Rightarrow> string list \<Rightarrow> js_error option" where
  "checkContextSuffixes cs [] = None"
| "checkContextSuffixes cs (contextSuffix # rest) =
     (if \<not> truthy (get_prop cs (DIALOGFLOW_INPUT_CONTEXT_NAME @ contextSuffix))
         \<or> \<not> truthy (get_prop cs (DIALOGFLOW_INPUT_CONTEXT_LIFESPAN @ contextSuffix))
      then Some (Error (''DIALOGFLOW_INPUT_CONTEXT_NAME'' @ contextSuffix
                        @ '' and DIALOGFLOW_INPUT_CONTEXT_LIFESPAN'' @ contextSuffix
                        @ '' capability required''))
      else checkContextSuffixes cs rest)"

text \<open>
  \<open>Validate\<close> is not an \<open>async\<close> function: a failed check throws out of the call. The
  capabilities with the defaults applied are stored before the first check.
\<close>

definition Validate :: "connector \<Rightarrow> connector \<times> unit promise completion" where
  "Validate this =
     (let cs = assign (assign [] Defaults) (caps this);
          this1 = this\<lparr> caps := cs \<rparr>;
          kb = get_prop cs DIALOGFLOW_ENABLE_KNOWLEDGEBASE
      in if \<not> truthy (get_prop cs DIALOGFLOW_PROJECT_ID)
         then (this1, Throw (Error ''DIALOGFLOW_PROJECT_ID capability required''))
         else if \<not> truthy (get_prop cs DIALOGFLOW_CLIENT_EMAIL)
         then (this1, Throw (Error ''DIALOGFLOW_CLIENT_EMAIL capability required''))
         else if \<not> truthy (get_prop cs DIALOGFLOW_PRIVATE_KEY)
         then (this1, Throw (Error ''DIALOGFLOW_PRIVATE_KEY capability required''))
         else if \<not> isArray kb
                 \<and> \<not> isBoolean (if truthy kb then JBool (\<not> isString kb) else kb)
         then (this1, Throw (Error ''DIALOGFLOW_ENABLE_KNOWLEDGEBASE capability has to be an array of knowledge base identifiers, or a boolean''))
         else
           (let cs2 = (if isString kb
                       then AList.update DIALOGFLOW_ENABLE_KNOWLEDGEBASE (JBool (kb = JStr ''true'')) cs
                       else cs);
                this2 = this\<lparr> caps := cs2 \<rparr>
            in case checkContextSuffixes cs2 (getContextSuffixes cs2) of
                 Some err \<Rightarrow> (this2, Throw err)
               | None \<Rightarrow> (this2, Return (Resolved ()))))"

definition Build :: "connector \<Rightarrow> connector \<times> unit promise completion" where
  "Build this =
     (this\<lparr> sessionOpts := Some (get_prop (caps this) DIALOGFLOW_CLIENT_EMAIL,
                                  get_prop (caps this) DIALOGFLOW_PRIVATE_KEY) \<rparr>,
      Return (Resolved ()))"

text \<open>\<open>_createInitialContext\<close>: here \<open>parseInt\<close> stands outside any \<open>try\<close>.\<close>

definition createInitialContext :: "env \<Rightarrow> connector \<Rightarrow> string \<Rightarrow> js_error + df_context" where
  "createInitialContext E this contextSuffix =
     (case parseInt (get_prop (caps this) (DIALOGFLOW_INPUT_CONTEXT_LIFESPAN @ contextSuffix)) of
        Inl err \<Rightarrow> Inl err
      | Inr n \<Rightarrow>
          (let ps = get_prop (caps this) (DIALOGFLOW_INPUT_CONTEXT_PARAMETERS @ contextSuffix)
           in Inr \<lparr> ctx_name = contextPath E (get_prop (caps this) DIALOGFLOW_PROJECT_ID)
                                 (conversationId this)
                                 (get_prop (caps this) (DIALOGFLOW_INPUT_CONTEXT_NAME @ contextSuffix)),
                    ctx_lifespanCount = n,
                    ctx_parameters = (if truthy ps then StructParameters (jsonToStructProto E ps)
                                      else FalsyParameters ps) \<rparr>))"

fun createInitialContexts :: "env \<Rightarrow> connector \<Rightarrow> string list \<Rightarrow> js_error + df_context list" where
  "createInitialContexts E this [] = Inr []"
| "createInitialContexts E this (c # cs) =
     (case createInitialContext E this c of
        Inl err \<Rightarrow> Inl err
      | Inr x \<Rightarrow>
          (case createInitialContexts E this cs of
             Inl err \<Rightarrow> Inl err
           | Inr xs \<Rightarrow> Inr (x # xs)))"

text \<open>\<open>x && x.length > 0\<close>.\<close>

fun nonEmpty :: "jsval \<Rightarrow> bool" where
  "nonEmpty (JArr xs) = (xs \<noteq> [])"
| "nonEmpty (JPrim (PStr s)) = (s \<noteq> [])"
| "nonEmpty v = False"

text \<open>
  \<open>Start\<close> is an \<open>async\<close> function: whatever is thrown inside rejects its promise. \<open>uuid\<close> is
  the identifier that \<open>uuidV1()\<close> draws, \<open>listed\<close> the outcome of \<open>listKnowledgeBases\<close> (the
  names of the resources, \<open>None\<close> when there are none to map), consulted only when the
  knowledge base toggle is the boolean \<open>true\<close>. The constructors and path templates of the
  Dialogflow client are taken not to throw. \<open>listKnowledgeBases\<close> is the step that fills
  \<open>kbNames\<close>, \<open>openSession\<close> the one that picks the session client and sets the session
  path.
\<close>

definition listKnowledgeBases ::
  "connector \<Rightarrow> js_error + string list option \<Rightarrow> js_error + connector" where
  "listKnowledgeBases this listed =
     (let kb = get_prop (caps this) DIALOGFLOW_ENABLE_KNOWLEDGEBASE
      in if isBoolean kb \<and> truthy kb
         then (case listed of
                 Inl err \<Rightarrow> Inl err
               | Inr None \<Rightarrow> Inr (this\<lparr> kbNames := JUndefined \<rparr>)
               | Inr (Some names) \<Rightarrow> Inr (this\<lparr> kbNames := JArr (map JStr names) \<rparr>))
         else if isArray kb then Inr (this\<lparr> kbNames := kb \<rparr>)
         else Inr this)"

definition openSession :: "env \<Rightarrow> connector \<Rightarrow> connector" where
  "openSession E this =
     (let this1 = (if nonEmpty (kbNames this)
                   then this\<lparr> sessionClient := Some SessionsClient_v2beta1,
                              queryParams := Some [(''knowledgeBaseNames'', QVal (kbNames this))] \<rparr>
                   else this\<lparr> sessionClient := Some SessionsClient \<rparr>)
      in this1\<lparr> sessionPath :=
                  Some (sessionPathOf E (get_prop (caps this1) DIALOGFLOW_PROJECT_ID)
                          (conversationId this1)) \<rparr>)"

definition Start ::
  "env \<Rightarrow> connector \<Rightarrow> string \<Rightarrow> js_error + string list option \<Rightarrow> connector \<times> unit promise" where
  "Start E this uuid listed =
     (let this1 = this\<lparr> conversationId := JStr uuid, queryParams := Some [] \<rparr>
      in case listKnowledgeBases this1 listed of
           Inl err \<Rightarrow> (this1, Rejected err)
         | Inr this2 \<Rightarrow>
             (let this3 = openSession E this2
              in case createInitialContexts E this3 (getContextSuffixes (caps this3)) of
                   Inl err \<Rightarrow> (this3, Rejected err)
                 | Inr cs \<Rightarrow>
                     (this3\<lparr> queryParams := Some [(''contexts'', QContexts cs)] \<rparr>, Resolved ())))"

definition Stop :: "connector \<Rightarrow> connector \<times> unit promise completion" where
  "Stop this =
     (this\<lparr> sessionClient := None, sessionPath := None, queryParams := None \<rparr>,
      Return (Resolved ()))"

definition Clean :: "connector \<Rightarrow> connector \<times> unit promise completion" where
  "Clean this = (this\<lparr> sessionOpts := None \<rparr>, Return (Resolved ()))"


subsection \<open>UserSays\<close>

record user_button =
  ub_text :: jsval
  ub_payload :: jsval

record msg =
  msg_messageText :: jsval
  msg_buttons :: "user_button list option"
  SET_DIALOGFLOW_CONTEXT :: jsval
  SET_DIALOGFLOW_QUERYPARAMS :: jsval

text \<open>\<open>request.queryInput\<close>: its \<open>text\<close> member (text and language code) or its \<open>event\<close> member.\<close>

datatype query_input = QueryText jsval jsval | QueryEvent "(string \<times> jsval) list"

record request =
  session :: "string option"
  queryInput :: query_input
  rq_queryParams :: "(string \<times> qval) list"

text \<open>
  The \<open>try\<close> block around \<open>JSON.parse\<close>: the parsed payload, \<open>None\<close> when the conversion of
  the payload to a string or the parse throws.
\<close>

definition parsePayload :: "env \<Rightarrow> jsval \<Rightarrow> jsval option" where
  "parsePayload E payload =
     (case to_string payload of Inl err \<Rightarrow> None | Inr s \<Rightarrow> JSON_parse E s)"

definition buildQueryInput :: "env \<Rightarrow> (string \<times> jsval) list \<Rightarrow> msg \<Rightarrow> query_input" where
  "buildQueryInput E cs m =
     (let languageCode = get_prop cs DIALOGFLOW_LANGUAGE_CODE;
          textQuery = QueryText (msg_messageText m) languageCode
      in if truthy (get_prop cs DIALOGFLOW_BUTTON_EVENTS)
         then (case msg_buttons m of
                 None \<Rightarrow> textQuery
               | Some [] \<Rightarrow> textQuery
               | Some (b # bs) \<Rightarrow>
                   if truthy (ub_text b) \<or> truthy (ub_payload b)
                   then (let payload = (if truthy (ub_payload b) then ub_payload b else ub_text b)
                         in case parsePayload E payload of
                              Some parsed \<Rightarrow>
                                QueryEvent (assign (assign [] [(''languageCode'', languageCode)])
                                              (own_entries parsed))
                            | None \<Rightarrow>
                                QueryEvent [(''name'', payload), (''languageCode'', languageCode)])
                   else textQuery)
         else textQuery)"

text \<open>
  The merge loop on the stored \<open>queryParams\<close>. With no custom context the loop body never
  runs; otherwise reading \<open>contexts\<close> of a missing \<open>queryParams\<close>, or \<open>findIndex\<close> of a missing
  \<open>contexts\<close>, is a TypeError thrown out of \<open>UserSays\<close>.
\<close>

definition mergeStored ::
  "(string \<times> qval) list option \<Rightarrow> df_context list \<Rightarrow> js_error + (string \<times> qval) list option" where
  "mergeStored qp customContexts =
     (if customContexts = [] then Inr qp
      else (case qp of
              None \<Rightarrow> Inl (TypeError ''Cannot read property contexts of null'')
            | Some ps \<Rightarrow>
                (case map_of ps ''contexts'' of
                   Some (QContexts cs) \<Rightarrow>
                     Inr (Some (AList.update ''contexts''
                                  (QContexts (mergeContexts cs customContexts)) ps))
                 | _ \<Rightarrow> Inl (TypeError ''Cannot read property findIndex of undefined''))))"

text \<open>
  The request. \<open>Object.assign({}, this.queryParams, mergeQueryParams)\<close> copies the stored
  members (none when \<open>queryParams\<close> is \<open>null\<close>) and puts the members of
  \<open>msg.SET_DIALOGFLOW_QUERYPARAMS\<close> on top.
\<close>

definition buildRequest :: "env \<Rightarrow> connector \<Rightarrow> msg \<Rightarrow> request" where
  "buildRequest E this m =
     (let mergeQueryParams = (if truthy (SET_DIALOGFLOW_QUERYPARAMS m)
                              then own_entries (SET_DIALOGFLOW_QUERYPARAMS m) else [])
      in \<lparr> session = sessionPath this,
           queryInput = buildQueryInput E (caps this) m,
           rq_queryParams =
             assign (case queryParams this of None \<Rightarrow> [] | Some ps \<Rightarrow> ps)
               (map (\<lambda>(k, v). (k, QVal v)) mergeQueryParams) \<rparr>)"

text \<open>
  The \<open>then\<close> handler after \<open>this.queryParams.contexts = []\<close>, in its three steps: the
  parameters of the output contexts are passed through the struct codec, in place; the
  fulfillment messages of the platform are queued, and the bare message of a forced intent
  resolution when none was accepted; \<open>handleResponse\<close> is what the handler queues and what
  it throws.
\<close>

definition normalizeResponse :: "env \<Rightarrow> response \<Rightarrow> response" where
  "normalizeResponse E response =
     response\<lparr> queryResult := (queryResult response)\<lparr> qr_outputContexts :=
       map (\<lambda>c. c\<lparr> oc_parameters :=
                    Some (jsonToStructProto E (structProtoToJson E (oc_parameters c))) \<rparr>)
         (qr_outputContexts (queryResult response)) \<rparr> \<rparr>"

definition queueMessages ::
  "env \<Rightarrow> (string \<times> jsval) list \<Rightarrow> queryResult \<Rightarrow> nlp \<Rightarrow> botMsg list \<times> js_error option" where
  "queueMessages E cs qr n =
     (let fulfillmentMessages = selectFulfillmentMessages cs (qr_fulfillmentMessages qr)
      in case deliverAll E qr n fulfillmentMessages of
           (ms, accepted, Some err) \<Rightarrow> (ms, Some err)
         | (ms, accepted, None) \<Rightarrow>
             if truthy (get_prop cs DIALOGFLOW_FORCE_INTENT_RESOLUTION) \<and> \<not> accepted
             then (ms @ [newBotMsg qr n], None)
             else (ms, None))"

definition handleResponse ::
  "env \<Rightarrow> (string \<times> jsval) list \<Rightarrow> response \<Rightarrow> botMsg list \<times> js_error option" where
  "handleResponse E cs response0 =
     (let response = normalizeResponse E response0
      in case extractIntent cs response of
           Inl err \<Rightarrow> ([], Some err)
         | Inr i \<Rightarrow>
             queueMessages E cs (queryResult response)
               \<lparr> nlp_intent = i, nlp_entities = extractEntities response \<rparr>)"

text \<open>The \<open>catch\<close> handler of the promise chain.\<close>

definition wrapError :: "js_error \<Rightarrow> js_error" where
  "wrapError err = Error (''Cannot send message to dialogflow container: '' @ message err)"

text \<open>
  One call of \<open>UserSays\<close>. \<open>reply\<close> is how the promise of \<open>detectIntent\<close> settles (the first
  element of the responses, or the rejection), read only when the call is made. The record
  returned holds the connector afterwards, the requests handed to \<open>detectIntent\<close>, what the
  call gives back (a throw, or its promise as it settles) and the messages handed to
  \<open>queueBotSays\<close>.
\<close>

record turn =
  t_state :: connector
  t_calls :: "request list"
  t_result :: "unit promise completion"
  t_queued :: "botMsg list"

definition UserSays :: "env \<Rightarrow> connector \<Rightarrow> msg \<Rightarrow> js_error + response \<Rightarrow> turn" where
  "UserSays E this m reply =
     (case sessionClient this of
        None \<Rightarrow>
          \<lparr> t_state = this, t_calls = [], t_result = Return (Rejected (Error ''not built'')),
            t_queued = [] \<rparr>
      | Some cl \<Rightarrow>
          (let customContexts =
                 extractCustomContexts E (caps this) (conversationId this) (SET_DIALOGFLOW_CONTEXT m)
           in case mergeStored (queryParams this) customContexts of
                Inl err \<Rightarrow> \<lparr> t_state = this, t_calls = [], t_result = Throw err, t_queued = [] \<rparr>
              | Inr qp \<Rightarrow>
                  (let this1 = this\<lparr> queryParams := qp \<rparr>;
                       request = buildRequest E this1 m
                   in case reply of
                        Inl err \<Rightarrow>
                          \<lparr> t_state = this1, t_calls = [request],
                            t_result = Return (Rejected (wrapError err)), t_queued = [] \<rparr>
                      | Inr response \<Rightarrow>
                          (case queryParams this1 of
                             None \<Rightarrow>
                               \<lparr> t_state = this1, t_calls = [request],
                                 t_result = Return (Rejected (wrapError
                                   (TypeError ''Cannot set property contexts of null''))),
                                 t_queued = [] \<rparr>
                           | Some ps \<Rightarrow>
                               (let this2 = this1\<lparr> queryParams :=
                                              Some (AList.update ''contexts'' (QContexts []) ps) \<rparr>
                                in case handleResponse E (caps this2) response of
                                     (ms, thrown) \<Rightarrow>
                                       \<lparr> t_state = this2, t_calls = [request],
                                         t_result = Return (case thrown of
                                                              None \<Rightarrow> Resolved ()
                                                            | Some err \<Rightarrow> Rejected (wrapError err)),
                                         t_queued = ms \<rparr>)))))"


text \<open>The pending collection \<open>this.queryParams.contexts\<close>, when there is one.\<close>

definition pending :: "connector \<Rightarrow> df_context list option" where
  "pending this =
     (case queryParams this of
        None \<Rightarrow> None
      | Some ps \<Rightarrow> (case map_of ps ''contexts'' of Some (QContexts cs) \<Rightarrow> Some cs | _ \<Rightarrow> None))"

text \<open>The values that ToString converts: \<open>to_string\<close> throws on no other (see \<open>to_string_convertible\<close>).\<close>

fun convertible :: "jsval \<Rightarrow> bool" where
  "convertible (JPrim p) = True"
| "convertible (JArr xs) = list_all convertible xs"
| "convertible (JObj kvs) = (''toString'' \<notin> set (map fst kvs))"

text \<open>The knowledge base check of \<open>Validate\<close>, as the condition under which it does not throw.\<close>

definition kbAccepted :: "jsval \<Rightarrow> bool" where
  "kbAccepted kb = (isArray kb \<or> isBoolean (if truthy kb then JBool (\<not> isString kb) else kb))"

text \<open>
  The custom contexts of a message on a connector, and the connector after a sequence of
  turns, each a message with the way its \<open>detectIntent\<close> call settles.
\<close>

definition customContextsOf :: "env \<Rightarrow> connector \<Rightarrow> msg \<Rightarrow> df_context list" where
  "customContextsOf E this m =
     extractCustomContexts E (caps this) (conversationId this) (SET_DIALOGFLOW_CONTEXT m)"

fun stateAfter :: "env \<Rightarrow> connector \<Rightarrow> (msg \<times> (js_error + response)) list \<Rightarrow> connector" where
  "stateAfter E this [] = this"
| "stateAfter E this ((m, reply) # rest) = stateAfter E (t_state (UserSays E this m reply)) rest"

section \<open>The specification's reading of entity extraction\<close>







section \<open>Sample data\<close>

text \<open>
  A concrete environment and connector on which the model is evaluated: the path templates
  of the Dialogflow client, a codec that keeps nothing, and a \<open>JSON.parse\<close> that knows two
  texts, \<open>welcome_json\<close> (an object whose \<open>name\<close> is \<open>WELCOME\<close>) and \<open>true\<close>, and a
  \<open>mime.lookup\<close> that knows one file.
\<close>

definition welcome_json :: string where
  "welcome_json =
     ''{'' @ [CHR 0x22] @ ''name'' @ [CHR 0x22] @ '':'' @ [CHR 0x22] @ ''WELCOME'' @ [CHR 0x22] @ ''}''"

definition path_text :: "jsval \<Rightarrow> string" where
  "path_text v = (case to_string v of Inl err \<Rightarrow> [] | Inr s \<Rightarrow> s)"

definition sample_env :: env where
  "sample_env =
     \<lparr> contextPath = (\<lambda>project session ctx.
         ''projects/'' @ path_text project @ ''/agent/sessions/'' @ path_text session
           @ ''/contexts/'' @ path_text ctx),
       sessionPathOf = (\<lambda>project session.
         ''projects/'' @ path_text project @ ''/agent/sessions/'' @ path_text session),
       jsonToStructProto = (\<lambda>v. []),
       structProtoToJson = (\<lambda>s. JObj []),
       JSON_parse = (\<lambda>s. if s = welcome_json then Some (JObj [(''name'', JStr ''WELCOME'')])
                          else if s = ''true'' then Some (JBool True) else None),
       mime_lookup = (\<lambda>u. if u = ''m.png'' then Some ''image/png'' else None) \<rparr>"

definition sample_caps :: "(string \<times> jsval) list" where
  "sample_caps =
     [(DIALOGFLOW_PROJECT_ID, JStr ''p''),
      (DIALOGFLOW_CLIENT_EMAIL, JStr ''e''),
      (DIALOGFLOW_PRIVATE_KEY, JStr ''k''),
      (DIALOGFLOW_INPUT_CONTEXT_NAME, JStr ''a''),
      (DIALOGFLOW_INPUT_CONTEXT_LIFESPAN, JStr ''2'')]"

text \<open>The sample connector after \<open>Validate\<close>, \<open>Build\<close> and \<open>Start\<close> with conversation \<open>c\<close>.\<close>

definition sample_context :: "string \<Rightarrow> jsnum \<Rightarrow> df_context" where
  "sample_context n l =
     \<lparr> ctx_name = ''projects/p/agent/sessions/c/contexts/'' @ n, ctx_lifespanCount = l,
       ctx_parameters = NoParameters \<rparr>"

definition sample_started :: connector where
  "sample_started =
     fst (Start sample_env (fst (Build (fst (Validate (BotiumConnectorDialogflow sample_caps)))))
            ''c'' (Inr None))"

definition plain_msg :: msg where
  "plain_msg =
     \<lparr> msg_messageText = JStr ''hi'', msg_buttons = None, SET_DIALOGFLOW_CONTEXT = JUndefined,
       SET_DIALOGFLOW_QUERYPARAMS = JUndefined \<rparr>"

definition empty_queryResult :: queryResult where
  "empty_queryResult =
     \<lparr> qr_outputContexts = [], qr_intent = None, qr_intentDetectionConfidence = JNum ''0'',
       qr_parameters = None, qr_fulfillmentMessages = [] \<rparr>"


section \<open>Lemmas on the helpers\<close>

lemmas Capabilities =
  DIALOGFLOW_PROJECT_ID_def DIALOGFLOW_CLIENT_EMAIL_def DIALOGFLOW_PRIVATE_KEY_def
  DIALOGFLOW_LANGUAGE_CODE_def DIALOGFLOW_INPUT_CONTEXT_NAME_def
  DIALOGFLOW_INPUT_CONTEXT_LIFESPAN_def DIALOGFLOW_INPUT_CONTEXT_PARAMETERS_def
  DIALOGFLOW_OUTPUT_PLATFORM_def DIALOGFLOW_FORCE_INTENT_RESOLUTION_def
  DIALOGFLOW_BUTTON_EVENTS_def DIALOGFLOW_ENABLE_KNOWLEDGEBASE_def
  DIALOGFLOW_FALLBACK_INTENTS_def

lemma findIndex_none: "(\<forall>x\<in>set xs. \<not> P x) \<Longrightarrow> findIndex P xs = - 1"
proof -
  assume "\<forall>x\<in>set xs. \<not> P x"
  then have h: "takeWhile (\<lambda>x. \<not> P x) xs = xs" by (simp add: takeWhile_eq_all_conv)
  show ?thesis unfolding findIndex_def Let_def by (simp only: h) simp
qed

lemma findIndex_some:
  assumes "\<exists>x\<in>set xs. P x"
  shows "0 \<le> findIndex P xs \<and> nat (findIndex P xs) < length xs
         \<and> P (xs ! nat (findIndex P xs)) \<and> (\<forall>j < nat (findIndex P xs). \<not> P (xs ! j))"
proof -
  let ?n = "length (takeWhile (\<lambda>x. \<not> P x) xs)"
  have "?n \<le> length xs" by (rule length_takeWhile_le)
  moreover have "?n \<noteq> length xs"
  proof
    assume "?n = length xs"
    then have "takeWhile (\<lambda>x. \<not> P x) xs = xs"
      by (metis takeWhile_eq_take take_all order_refl)
    then have "\<forall>x\<in>set xs. \<not> P x" by (simp add: takeWhile_eq_all_conv)
    with assms show False by blast
  qed
  ultimately have lt: "?n < length xs" by simp
  then have idx: "findIndex P xs = int ?n" by (simp add: findIndex_def)
  from lt have p: "P (xs ! ?n)" using nth_length_takeWhile[of "\<lambda>x. \<not> P x" xs] by simp
  have "\<And>j. j < ?n \<Longrightarrow> \<not> P (xs ! j)"
  proof -
    fix j assume j: "j < ?n"
    then have "takeWhile (\<lambda>x. \<not> P x) xs ! j = xs ! j" by (rule takeWhile_nth)
    moreover have "takeWhile (\<lambda>x. \<not> P x) xs ! j \<in> set (takeWhile (\<lambda>x. \<not> P x) xs)"
      using j by (rule nth_mem)
    ultimately show "\<not> P (xs ! j)" using set_takeWhileD by fastforce
  qed
  then show ?thesis using lt idx p by simp
qed

lemma mergeContext_found:
  assumes "\<exists>c\<in>set contexts. ctx_name c = ctx_name cc"
  shows "\<exists>i<length contexts. ctx_name (contexts ! i) = ctx_name cc
           \<and> (\<forall>j<i. ctx_name (contexts ! j) \<noteq> ctx_name cc)
           \<and> mergeContext contexts cc = contexts[i := cc]"
proof -
  let ?i = "findIndex (\<lambda>c. ctx_name c = ctx_name cc) contexts"
  from findIndex_some[of contexts "\<lambda>c. ctx_name c = ctx_name cc", OF assms]
  have a: "0 \<le> ?i" and b: "nat ?i < length contexts"
    and c: "ctx_name (contexts ! nat ?i) = ctx_name cc"
    and d: "\<forall>j<nat ?i. ctx_name (contexts ! j) \<noteq> ctx_name cc"
    by blast+
  from a have "mergeContext contexts cc = contexts[nat ?i := cc]"
    by (simp add: mergeContext_def Let_def)
  with b c d show ?thesis by blast
qed

lemma mergeContext_not_found:
  assumes "\<forall>c\<in>set contexts. ctx_name c \<noteq> ctx_name cc"
  shows "mergeContext contexts cc = contexts @ [cc]"
proof -
  from assms have "findIndex (\<lambda>c. ctx_name c = ctx_name cc) contexts = - 1"
    by (intro findIndex_none)
  then show ?thesis by (simp add: mergeContext_def Let_def)
qed

lemma mergeContext_nth_other:
  assumes j: "j < length contexts" and ne: "ctx_name (contexts ! j) \<noteq> ctx_name cc"
  shows "mergeContext contexts cc ! j = contexts ! j"
proof (cases "\<exists>c\<in>set contexts. ctx_name c = ctx_name cc")
  case True
  from mergeContext_found[OF True] obtain i where
    i: "ctx_name (contexts ! i) = ctx_name cc" "mergeContext contexts cc = contexts[i := cc]"
    by blast
  from i(1) ne have "i \<noteq> j" by auto
  with i(2) show ?thesis by simp
next
  case False
  then have "mergeContext contexts cc = contexts @ [cc]"
    by (intro mergeContext_not_found) simp
  with j show ?thesis by (simp add: nth_append)
qed

lemma map_of_assign:
  "map_of (assign t s) k = (case map_of (rev s) k of Some v \<Rightarrow> Some v | None \<Rightarrow> map_of t k)"
  unfolding assign_def
proof (induction s arbitrary: t)
  case Nil then show ?case by simp
next
  case (Cons a s)
  obtain k' v' where a: "a = (k', v')" by (cases a)
  show ?case using Cons[of "AList.update k' v' t"]
    by (simp add: a update_conv' map_add_def split: option.splits)
qed

lemma get_prop_update_other:
  "k \<noteq> k' \<Longrightarrow> get_prop (AList.update k' v cs) k = get_prop cs k"
  by (simp add: get_prop_def update_conv')

lemma mergeStored_pending:
  assumes "queryParams this = Some ps" and "map_of ps ''contexts'' = Some (QContexts cs)"
  shows "mergeStored (queryParams this) customs
           = Inr (Some (AList.update ''contexts'' (QContexts (mergeContexts cs customs)) ps))"
proof (cases "customs = []")
  case True
  from assms(2) have "AList.update ''contexts'' (QContexts cs) ps = ps" by (rule update_triv)
  with True assms(1) show ?thesis by (simp add: mergeStored_def mergeContexts_def)
next
  case False
  with assms show ?thesis by (simp add: mergeStored_def)
qed

text \<open>With a session client and a pending collection, \<open>UserSays\<close> hands one request over.\<close>

lemma UserSays_calls:
  assumes "sessionClient this = Some cl" and "queryParams this = Some ps"
    and "map_of ps ''contexts'' = Some (QContexts cs)"
  shows "t_calls (UserSays E this m reply)
           = [buildRequest E
                (this\<lparr> queryParams := Some (AList.update ''contexts''
                   (QContexts (mergeContexts cs
                      (extractCustomContexts E (caps this) (conversationId this)
                         (SET_DIALOGFLOW_CONTEXT m)))) ps) \<rparr>) m]"
  using assms(1) mergeStored_pending[OF assms(2,3)]
  by (cases reply) (simp_all add: UserSays_def Let_def split: prod.splits option.splits)



section \<open>Evaluating the sample data\<close>

lemma sample_started_eq:
  "sample_started =
     \<lparr> caps = [(''DIALOGFLOW_LANGUAGE_CODE'', JStr ''en-US''),
               (''DIALOGFLOW_FORCE_INTENT_RESOLUTION'', JBool True),
               (''DIALOGFLOW_BUTTON_EVENTS'', JBool True),
               (''DIALOGFLOW_ENABLE_KNOWLEDGEBASE'', JBool False),
               (''DIALOGFLOW_FALLBACK_INTENTS'', JArr [JStr ''Default Fallback Intent'']),
               (''DIALOGFLOW_PROJECT_ID'', JStr ''p''),
               (''DIALOGFLOW_CLIENT_EMAIL'', JStr ''e''),
               (''DIALOGFLOW_PRIVATE_KEY'', JStr ''k''),
               (''DIALOGFLOW_INPUT_CONTEXT_NAME'', JStr ''a''),
               (''DIALOGFLOW_INPUT_CONTEXT_LIFESPAN'', JStr ''2'')],
       sessionOpts = Some (JStr ''e'', JStr ''k''),
       conversationId = JStr ''c'',
       queryParams = Some [(''contexts'',
         QContexts [\<lparr> ctx_name = ''projects/p/agent/sessions/c/contexts/a'',
                      ctx_lifespanCount = Num 2,
                      ctx_parameters = FalsyParameters JUndefined \<rparr>])],
       kbNames = JUndefined, sessionClient = Some SessionsClient,
       sessionPath = Some ''projects/p/agent/sessions/c'' \<rparr>"
  by code_simp

lemmas model_defs =
  UserSays_def buildRequest_def buildQueryInput_def mergeStored_def mergeContexts_def
  mergeContext_def findIndex_def extractCustomContexts_def createCustomContext_def
  parseInt_def parseInt_string_def parse_digits_def is_white_def is_digit_def digit_value_def
  digits_value_def assign_def get_prop_def wrapError_def Capabilities sample_env_def
  plain_msg_def sample_context_def path_text_def Let_def


section \<open>The claims\<close>

subsection \<open>Context merge\<close>

text \<open>
  C1. For every user message, the custom contexts extracted from
  \<open>msg.SET_DIALOGFLOW_CONTEXT\<close> are merged into the pending \<open>queryParams.contexts\<close>
  collection by name. With a session client and a pending collection \<open>cs\<close>, the one request
  of the call is built from the connector whose collection is \<open>cs\<close> merged with the custom
  contexts, taken one after the other. Merging one context \<open>cc\<close> into \<open>contexts\<close>: when some
  context has the name of \<open>cc\<close>, the first such context is replaced in place, at its index;
  when none has, \<open>cc\<close> is appended at the end; every context with another name stays where
  and what it was.
\<close>

theorem C1_context_merge:
  "(sessionClient this = Some cl \<and> queryParams this = Some ps
      \<and> map_of ps ''contexts'' = Some (QContexts cs)
    \<longrightarrow> t_calls (UserSays E this m reply)
          = [buildRequest E
               (this\<lparr> queryParams := Some (AList.update ''contexts''
                  (QContexts (mergeContexts cs
                     (extractCustomContexts E (caps this) (conversationId this)
                        (SET_DIALOGFLOW_CONTEXT m)))) ps) \<rparr>) m])
   \<and> mergeContexts contexts [] = contexts
   \<and> mergeContexts contexts (customs @ [cc]) = mergeContext (mergeContexts contexts customs) cc
   \<and> ((\<exists>c\<in>set contexts. ctx_name c = ctx_name cc)
        \<longrightarrow> (\<exists>i<length contexts. ctx_name (contexts ! i) = ctx_name cc
               \<and> (\<forall>j<i. ctx_name (contexts ! j) \<noteq> ctx_name cc)
               \<and> mergeContext contexts cc = contexts[i := cc]))
   \<and> ((\<forall>c\<in>set contexts. ctx_name c \<noteq> ctx_name cc)
        \<longrightarrow> mergeContext contexts cc = contexts @ [cc])
   \<and> (\<forall>j<length contexts. ctx_name (contexts ! j) \<noteq> ctx_name cc
        \<longrightarrow> mergeContext contexts cc ! j = contexts ! j)"
  using UserSays_calls[of this cl ps cs E m reply] mergeContext_found[of contexts cc]
    mergeContext_not_found[of contexts cc] mergeContext_nth_other[of _ contexts cc]
  by (simp add: mergeContexts_def)



text \<open>
  The sample connector holds the initial context \<open>a\<close>; a message that sets \<open>a\<close> and \<open>b\<close>
  replaces the first and appends the second.
\<close>

theorem C1_context_merge_witness:
  "t_calls (UserSays sample_env sample_started
              (plain_msg\<lparr> SET_DIALOGFLOW_CONTEXT := JObj [(''a'', JStr ''5''), (''b'', JStr ''3'')] \<rparr>)
              (Inl (Error ''down'')))
     = [\<lparr> session = Some ''projects/p/agent/sessions/c'',
          queryInput = QueryText (JStr ''hi'') (JStr ''en-US''),
          rq_queryParams = [(''contexts'',
            QContexts [sample_context ''a'' (Num 5), sample_context ''b'' (Num 3)])] \<rparr>]
   \<and> mergeContext [sample_context ''a'' (Num 2), sample_context ''b'' (Num 1)] (sample_context ''b'' (Num 5))
       = [sample_context ''a'' (Num 2), sample_context ''b'' (Num 5)]
   \<and> mergeContext [sample_context ''a'' (Num 2)] (sample_context ''b'' (Num 5))
       = [sample_context ''a'' (Num 2), sample_context ''b'' (Num 5)]"
  using
    C1_context_merge[where this = sample_started and cl = SessionsClient
      and ps = "[(''contexts'', QContexts [\<lparr> ctx_name = ''projects/p/agent/sessions/c/contexts/a'',
                      ctx_lifespanCount = Num 2, ctx_parameters = FalsyParameters JUndefined \<rparr>])]"
      and cs = "[\<lparr> ctx_name = ''projects/p/agent/sessions/c/contexts/a'',
                      ctx_lifespanCount = Num 2, ctx_parameters = FalsyParameters JUndefined \<rparr>]"
      and E = sample_env
      and m = "plain_msg\<lparr> SET_DIALOGFLOW_CONTEXT := JObj [(''a'', JStr ''5''), (''b'', JStr ''3'')] \<rparr>"
      and reply = "Inl (Error ''down'')"
      and contexts = "[sample_context ''a'' (Num 2), sample_context ''b'' (Num 1)]"
      and customs = "[]" and cc = "sample_context ''b'' (Num 5)"]
    C1_context_merge[where this = sample_started and cl = SessionsClient
      and ps = "[]" and cs = "[]" and E = sample_env and m = plain_msg
      and reply = "Inl (Error ''down'')"
      and contexts = "[sample_context ''a'' (Num 2)]"
      and customs = "[]" and cc = "sample_context ''b'' (Num 5)"]
  by (simp add: sample_started_eq model_defs)

subsection \<open>Entity extraction\<close>












subsection \<open>Fulfillment messages\<close>







subsection \<open>Intent extraction\<close>

text \<open>The capabilities after \<open>Validate\<close>: the defaults, overridden by what was configured.\<close>

lemma get_prop_assign_defaults:
  "map_of cs k = None \<Longrightarrow> get_prop (assign (assign [] Defaults) cs) k = get_prop Defaults k"
proof -
  assume "map_of cs k = None"
  then have "map_of (rev cs) k = None" by (simp add: map_of_eq_None_iff)
  then show ?thesis
    by (simp add: get_prop_def map_of_assign Defaults_def Capabilities)
qed

lemma Validate_get_prop:
  "k \<noteq> DIALOGFLOW_ENABLE_KNOWLEDGEBASE
   \<Longrightarrow> get_prop (caps (fst (Validate this))) k
       = get_prop (assign (assign [] Defaults) (caps this)) k"
  by (simp add: Validate_def Let_def get_prop_update_other split: option.splits)

text \<open>
  C4. When \<open>queryResult.intent\<close> is present, the extracted intent has the \<open>displayName\<close> as
  its name and \<open>intentDetectionConfidence\<close> as its confidence, and its incomprehension flag
  is \<open>true\<close> exactly when the \<open>displayName\<close> is an element of the configured
  \<open>DIALOGFLOW_FALLBACK_INTENTS\<close> list, \<open>undefined\<close> otherwise. When no intent is present the
  extracted intent is the empty record. The default list is \<open>['Default Fallback Intent']\<close>:
  it is what \<open>Validate\<close> leaves when the capability is not configured.
\<close>

theorem C4_intent:
  "(qr_intent (queryResult r) = Some i \<and> get_prop cs DIALOGFLOW_FALLBACK_INTENTS = JArr names
      \<longrightarrow> extractIntent cs r
            = Inr (Some \<lparr> intent_name = displayName i,
                          intent_confidence = qr_intentDetectionConfidence (queryResult r),
                          incomprehension =
                            (if JStr (displayName i) \<in> set names then Some True else None) \<rparr>))
   \<and> (qr_intent (queryResult r) = None \<longrightarrow> extractIntent cs r = Inr None)
   \<and> get_prop Defaults DIALOGFLOW_FALLBACK_INTENTS = JArr [JStr ''Default Fallback Intent'']
   \<and> (map_of (caps this) DIALOGFLOW_FALLBACK_INTENTS = None
        \<longrightarrow> get_prop (caps (fst (Validate this))) DIALOGFLOW_FALLBACK_INTENTS
              = JArr [JStr ''Default Fallback Intent''])"
proof -
  have d: "get_prop Defaults DIALOGFLOW_FALLBACK_INTENTS = JArr [JStr ''Default Fallback Intent'']"
    by (simp add: get_prop_def Defaults_def Capabilities)
  have ne: "DIALOGFLOW_FALLBACK_INTENTS \<noteq> DIALOGFLOW_ENABLE_KNOWLEDGEBASE"
    by (simp add: Capabilities)
  have v: "map_of (caps this) DIALOGFLOW_FALLBACK_INTENTS = None
        \<Longrightarrow> get_prop (caps (fst (Validate this))) DIALOGFLOW_FALLBACK_INTENTS
              = JArr [JStr ''Default Fallback Intent'']"
    using Validate_get_prop[OF ne, of this] get_prop_assign_defaults[of "caps this" DIALOGFLOW_FALLBACK_INTENTS] d
    by simp
  show ?thesis using d v by (simp add: extractIntent_def)
qed

text \<open>A fallback intent, another intent and no intent, on the sample connector.\<close>

theorem C4_intent_witness:
  "extractIntent (caps sample_started)
     \<lparr> queryResult = empty_queryResult\<lparr> qr_intent := Some \<lparr> displayName = ''Default Fallback Intent'' \<rparr>,
                                        qr_intentDetectionConfidence := JNum ''0.3'' \<rparr> \<rparr>
     = Inr (Some \<lparr> intent_name = ''Default Fallback Intent'', intent_confidence = JNum ''0.3'',
                   incomprehension = Some True \<rparr>)
   \<and> extractIntent (caps sample_started)
     \<lparr> queryResult = empty_queryResult\<lparr> qr_intent := Some \<lparr> displayName = ''order.pizza'' \<rparr>,
                                        qr_intentDetectionConfidence := JNum ''0.87'' \<rparr> \<rparr>
     = Inr (Some \<lparr> intent_name = ''order.pizza'', intent_confidence = JNum ''0.87'',
                   incomprehension = None \<rparr>)
   \<and> extractIntent (caps sample_started) \<lparr> queryResult = empty_queryResult \<rparr> = Inr None
   \<and> get_prop (caps (fst (Validate (BotiumConnectorDialogflow sample_caps)))) DIALOGFLOW_FALLBACK_INTENTS
       = JArr [JStr ''Default Fallback Intent'']"
  using
    C4_intent[where r = "\<lparr> queryResult = empty_queryResult\<lparr> qr_intent := Some \<lparr> displayName = ''Default Fallback Intent'' \<rparr>,
                                        qr_intentDetectionConfidence := JNum ''0.3'' \<rparr> \<rparr>"
      and i = "\<lparr> displayName = ''Default Fallback Intent'' \<rparr>" and cs = "caps sample_started"
      and names = "[JStr ''Default Fallback Intent'']"
      and this = "BotiumConnectorDialogflow sample_caps"]
    C4_intent[where r = "\<lparr> queryResult = empty_queryResult\<lparr> qr_intent := Some \<lparr> displayName = ''order.pizza'' \<rparr>,
                                        qr_intentDetectionConfidence := JNum ''0.87'' \<rparr> \<rparr>"
      and i = "\<lparr> displayName = ''order.pizza'' \<rparr>" and cs = "caps sample_started"
      and names = "[JStr ''Default Fallback Intent'']"
      and this = "BotiumConnectorDialogflow sample_caps"]
    C4_intent[where r = "\<lparr> queryResult = empty_queryResult \<rparr>" and cs = "caps sample_started"
      and this = "BotiumConnectorDialogflow sample_caps"]
  by (simp add: sample_started_eq empty_queryResult_def get_prop_def Capabilities
        BotiumConnectorDialogflow_def sample_caps_def)

subsection \<open>Query input\<close>

lemma assign_single: "assign [] [kv] = [kv]"
  by (cases kv) (simp add: assign_def)

text \<open>
  C5. When the \<open>DIALOGFLOW_BUTTON_EVENTS\<close> toggle is truthy and the message carries a
  non-empty button list whose first button has a truthy text or payload, \<open>UserSays\<close> builds
  an event query: with \<open>payload\<close> the payload of that button, or its text when the payload
  is falsy, a payload that \<open>JSON.parse\<close> accepts is merged by \<open>Object.assign\<close> onto an object
  holding the configured language code (so the members of the payload come on top of
  \<open>languageCode\<close>), and a payload that it rejects becomes the \<open>name\<close> of the event beside
  the configured language code. In every other case the query is the text query of
  \<open>msg.messageText\<close> with the configured language code. The query input is that of the
  request handed to \<open>detectIntent\<close>.
\<close>

theorem C5_query_input:
  "(truthy (get_prop cs DIALOGFLOW_BUTTON_EVENTS) \<and> msg_buttons m = Some (b # bs)
      \<and> (truthy (ub_text b) \<or> truthy (ub_payload b))
      \<and> payload = (if truthy (ub_payload b) then ub_payload b else ub_text b)
     \<longrightarrow> (parsePayload E payload = Some parsed
           \<longrightarrow> buildQueryInput E cs m
                 = QueryEvent (assign [(''languageCode'', get_prop cs DIALOGFLOW_LANGUAGE_CODE)]
                                 (own_entries parsed)))
         \<and> (parsePayload E payload = None
           \<longrightarrow> buildQueryInput E cs m
                 = QueryEvent [(''name'', payload),
                               (''languageCode'', get_prop cs DIALOGFLOW_LANGUAGE_CODE)]))
   \<and> (\<not> (truthy (get_prop cs DIALOGFLOW_BUTTON_EVENTS)
           \<and> (\<exists>b bs. msg_buttons m = Some (b # bs) \<and> (truthy (ub_text b) \<or> truthy (ub_payload b))))
     \<longrightarrow> buildQueryInput E cs m
           = QueryText (msg_messageText m) (get_prop cs DIALOGFLOW_LANGUAGE_CODE))
   \<and> (sessionClient this = Some cl \<and> queryParams this = Some ps
         \<and> map_of ps ''contexts'' = Some (QContexts pcs)
     \<longrightarrow> map queryInput (t_calls (UserSays E this m reply)) = [buildQueryInput E (caps this) m])
   \<and> (to_string payload = Inr s \<longrightarrow> parsePayload E payload = JSON_parse E s)
   \<and> (to_string payload = Inl err \<longrightarrow> parsePayload E payload = None)
   \<and> map_of (assign [(''languageCode'', l)] (own_entries parsed)) k
       = (case map_of (rev (own_entries parsed)) k of
            Some v \<Rightarrow> Some v
          | None \<Rightarrow> if k = ''languageCode'' then Some l else None)"
proof -
  have ev: "buildQueryInput E cs m
              = (case parsePayload E payload of
                   Some parsed \<Rightarrow>
                     QueryEvent (assign [(''languageCode'', get_prop cs DIALOGFLOW_LANGUAGE_CODE)]
                                   (own_entries parsed))
                 | None \<Rightarrow> QueryEvent [(''name'', payload),
                                       (''languageCode'', get_prop cs DIALOGFLOW_LANGUAGE_CODE)])"
    if "truthy (get_prop cs DIALOGFLOW_BUTTON_EVENTS)" "msg_buttons m = Some (b # bs)"
      "truthy (ub_text b) \<or> truthy (ub_payload b)"
      "payload = (if truthy (ub_payload b) then ub_payload b else ub_text b)"
    using that by (auto simp: buildQueryInput_def Let_def assign_single split: option.splits)
  have tx: "buildQueryInput E cs m
           = QueryText (msg_messageText m) (get_prop cs DIALOGFLOW_LANGUAGE_CODE)"
    if "\<not> (truthy (get_prop cs DIALOGFLOW_BUTTON_EVENTS)
           \<and> (\<exists>b bs. msg_buttons m = Some (b # bs) \<and> (truthy (ub_text b) \<or> truthy (ub_payload b))))"
    using that by (auto simp: buildQueryInput_def Let_def split: option.splits list.splits)
  have rq: "map queryInput (t_calls (UserSays E this m reply)) = [buildQueryInput E (caps this) m]"
    if "sessionClient this = Some cl" "queryParams this = Some ps"
      "map_of ps ''contexts'' = Some (QContexts pcs)"
    using UserSays_calls[OF that, of E m reply] by (simp add: buildRequest_def Let_def)
  have pp: "(to_string payload = Inr s \<longrightarrow> parsePayload E payload = JSON_parse E s)
            \<and> (to_string payload = Inl err \<longrightarrow> parsePayload E payload = None)"
    by (simp add: parsePayload_def)
  have mg: "map_of (assign [(''languageCode'', l)] (own_entries parsed)) k
       = (case map_of (rev (own_entries parsed)) k of
            Some v \<Rightarrow> Some v
          | None \<Rightarrow> if k = ''languageCode'' then Some l else None)"
    by (auto simp: map_of_assign split: option.splits)
  from ev tx rq pp mg show ?thesis by (simp split: option.splits)
qed

lemmas query_defs =
  buildQueryInput_def parsePayload_def sample_env_def welcome_json_def assign_def get_prop_def
  plain_msg_def Capabilities Let_def

text \<open>
  A button whose payload is JSON, a button with a text only, no button, and a button with
  neither text nor payload, on the sample connector.
\<close>

theorem C5_query_input_witness:
  "buildQueryInput sample_env (caps sample_started)
     (plain_msg\<lparr> msg_buttons := Some [\<lparr> ub_text = JStr ''Start'', ub_payload = JStr welcome_json \<rparr>] \<rparr>)
     = QueryEvent [(''languageCode'', JStr ''en-US''), (''name'', JStr ''WELCOME'')]
   \<and> buildQueryInput sample_env (caps sample_started)
     (plain_msg\<lparr> msg_buttons := Some [\<lparr> ub_text = JStr ''WELCOME'', ub_payload = JUndefined \<rparr>] \<rparr>)
     = QueryEvent [(''name'', JStr ''WELCOME''), (''languageCode'', JStr ''en-US'')]
   \<and> buildQueryInput sample_env (caps sample_started) plain_msg
     = QueryText (JStr ''hi'') (JStr ''en-US'')
   \<and> buildQueryInput sample_env (caps sample_started)
     (plain_msg\<lparr> msg_buttons := Some [\<lparr> ub_text = JStr [], ub_payload = JUndefined \<rparr>] \<rparr>)
     = QueryText (JStr ''hi'') (JStr ''en-US'')
   \<and> map queryInput (t_calls (UserSays sample_env sample_started plain_msg (Inl (Error ''down''))))
     = [QueryText (JStr ''hi'') (JStr ''en-US'')]"
proof -
  have a: "buildQueryInput sample_env (caps sample_started)
     (plain_msg\<lparr> msg_buttons := Some [\<lparr> ub_text = JStr ''Start'', ub_payload = JStr welcome_json \<rparr>] \<rparr>)
     = QueryEvent [(''languageCode'', JStr ''en-US''), (''name'', JStr ''WELCOME'')]"
    using C5_query_input[where cs = "caps sample_started" and E = sample_env
        and m = "plain_msg\<lparr> msg_buttons := Some [\<lparr> ub_text = JStr ''Start'', ub_payload = JStr welcome_json \<rparr>] \<rparr>"
        and b = "\<lparr> ub_text = JStr ''Start'', ub_payload = JStr welcome_json \<rparr>" and bs = "[]"
        and payload = "JStr welcome_json" and parsed = "JObj [(''name'', JStr ''WELCOME'')]"
        and this = sample_started and s = welcome_json and l = JNull and k = "[]"]
    by (simp add: sample_started_eq query_defs)
  have b: "buildQueryInput sample_env (caps sample_started)
     (plain_msg\<lparr> msg_buttons := Some [\<lparr> ub_text = JStr ''WELCOME'', ub_payload = JUndefined \<rparr>] \<rparr>)
     = QueryEvent [(''name'', JStr ''WELCOME''), (''languageCode'', JStr ''en-US'')]"
    using C5_query_input[where cs = "caps sample_started" and E = sample_env
        and m = "plain_msg\<lparr> msg_buttons := Some [\<lparr> ub_text = JStr ''WELCOME'', ub_payload = JUndefined \<rparr>] \<rparr>"
        and b = "\<lparr> ub_text = JStr ''WELCOME'', ub_payload = JUndefined \<rparr>" and bs = "[]"
        and payload = "JStr ''WELCOME''" and parsed = JNull
        and this = sample_started and s = "''WELCOME''" and l = JNull and k = "[]"]
    by (simp add: sample_started_eq query_defs)
  have c: "buildQueryInput sample_env (caps sample_started) plain_msg
     = QueryText (JStr ''hi'') (JStr ''en-US'')"
    using C5_query_input[where cs = "caps sample_started" and E = sample_env and m = plain_msg
        and this = sample_started and payload = JNull and parsed = JNull and l = JNull and k = "[]"]
    by (simp add: sample_started_eq query_defs)
  have e: "map queryInput (t_calls (UserSays sample_env sample_started plain_msg (Inl (Error ''down''))))
     = [QueryText (JStr ''hi'') (JStr ''en-US'')]"
    using c C5_query_input[where cs = "caps sample_started" and E = sample_env and m = plain_msg
        and this = sample_started and payload = JNull and parsed = JNull and l = JNull and k = "[]"
        and cl = SessionsClient and reply = "Inl (Error ''down'')"
        and ps = "[(''contexts'', QContexts [\<lparr> ctx_name = ''projects/p/agent/sessions/c/contexts/a'',
                      ctx_lifespanCount = Num 2, ctx_parameters = FalsyParameters JUndefined \<rparr>])]"
        and pcs = "[\<lparr> ctx_name = ''projects/p/agent/sessions/c/contexts/a'',
                      ctx_lifespanCount = Num 2, ctx_parameters = FalsyParameters JUndefined \<rparr>]"]
    by (simp add: sample_started_eq)
  have d: "buildQueryInput sample_env (caps sample_started)
     (plain_msg\<lparr> msg_buttons := Some [\<lparr> ub_text = JStr [], ub_payload = JUndefined \<rparr>] \<rparr>)
     = QueryText (JStr ''hi'') (JStr ''en-US'')"
    using C5_query_input[where cs = "caps sample_started" and E = sample_env
        and m = "plain_msg\<lparr> msg_buttons := Some [\<lparr> ub_text = JStr [], ub_payload = JUndefined \<rparr>] \<rparr>"
        and this = sample_started and payload = JNull and parsed = JNull and l = JNull and k = "[]"]
    by (simp add: sample_started_eq query_defs)
  from a b c d e show ?thesis by blast
qed

subsection \<open>Validate\<close>

text \<open>The checks of \<open>Validate\<close>, read off the capabilities with the defaults applied.\<close>

lemma checkContextSuffixes_None:
  "checkContextSuffixes cs sfx = None
   \<longleftrightarrow> list_all (\<lambda>s. truthy (get_prop cs (DIALOGFLOW_INPUT_CONTEXT_NAME @ s))
                      \<and> truthy (get_prop cs (DIALOGFLOW_INPUT_CONTEXT_LIFESPAN @ s))) sfx"
  by (induction sfx) auto

lemma name_key_not_kb:
  "DIALOGFLOW_INPUT_CONTEXT_NAME @ s \<noteq> DIALOGFLOW_ENABLE_KNOWLEDGEBASE"
  "DIALOGFLOW_INPUT_CONTEXT_LIFESPAN @ s \<noteq> DIALOGFLOW_ENABLE_KNOWLEDGEBASE"
  by (simp_all add: Capabilities)

lemma getContextSuffixes_update:
  "getContextSuffixes (AList.update DIALOGFLOW_ENABLE_KNOWLEDGEBASE v cs) = getContextSuffixes cs"
proof -
  have "\<not> startsWith DIALOGFLOW_ENABLE_KNOWLEDGEBASE DIALOGFLOW_INPUT_CONTEXT_NAME"
    by (simp add: startsWith_def Capabilities)
  then show ?thesis by (simp add: getContextSuffixes_def update_keys)
qed

lemma checkContextSuffixes_update:
  "checkContextSuffixes (AList.update DIALOGFLOW_ENABLE_KNOWLEDGEBASE v cs) sfx
     = checkContextSuffixes cs sfx"
  by (induction sfx) (simp_all add: get_prop_update_other name_key_not_kb)

lemma Validate_result:
  "snd (Validate this) =
     (let cs = assign (assign [] Defaults) (caps this) in
      if \<not> truthy (get_prop cs DIALOGFLOW_PROJECT_ID)
      then Throw (Error ''DIALOGFLOW_PROJECT_ID capability required'')
      else if \<not> truthy (get_prop cs DIALOGFLOW_CLIENT_EMAIL)
      then Throw (Error ''DIALOGFLOW_CLIENT_EMAIL capability required'')
      else if \<not> truthy (get_prop cs DIALOGFLOW_PRIVATE_KEY)
      then Throw (Error ''DIALOGFLOW_PRIVATE_KEY capability required'')
      else if \<not> kbAccepted (get_prop cs DIALOGFLOW_ENABLE_KNOWLEDGEBASE)
      then Throw (Error ''DIALOGFLOW_ENABLE_KNOWLEDGEBASE capability has to be an array of knowledge base identifiers, or a boolean'')
      else (case checkContextSuffixes cs (getContextSuffixes cs) of
              Some err \<Rightarrow> Throw err
            | None \<Rightarrow> Return (Resolved ())))"
  by (simp add: Validate_def Let_def kbAccepted_def getContextSuffixes_update
        checkContextSuffixes_update split: option.splits)

text \<open>
  C6. \<open>Validate\<close> throws out of the call, and never returns a rejected promise. A capability
  that is missing after the defaults are applied is not truthy; whenever
  \<open>DIALOGFLOW_PROJECT_ID\<close>, \<open>DIALOGFLOW_CLIENT_EMAIL\<close> or \<open>DIALOGFLOW_PRIVATE_KEY\<close> is not,
  \<open>Validate\<close> throws an Error that names the first of them that is not. For every context
  suffix \<open>s\<close> taken from a capability key that starts with \<open>DIALOGFLOW_INPUT_CONTEXT_NAME\<close>,
  it throws unless both the name and the lifespan capability of \<open>s\<close> are there. When all
  checks pass, the one on the knowledge base toggle included, it returns a resolved
  promise.
\<close>

theorem C6_Validate:
  "(map_of (assign (assign [] Defaults) (caps this)) k = None
      \<longrightarrow> \<not> truthy (get_prop (assign (assign [] Defaults) (caps this)) k))
   \<and> (\<not> truthy (get_prop (assign (assign [] Defaults) (caps this)) DIALOGFLOW_PROJECT_ID)
      \<longrightarrow> snd (Validate this) = Throw (Error ''DIALOGFLOW_PROJECT_ID capability required''))
   \<and> (truthy (get_prop (assign (assign [] Defaults) (caps this)) DIALOGFLOW_PROJECT_ID)
      \<and> \<not> truthy (get_prop (assign (assign [] Defaults) (caps this)) DIALOGFLOW_CLIENT_EMAIL)
      \<longrightarrow> snd (Validate this) = Throw (Error ''DIALOGFLOW_CLIENT_EMAIL capability required''))
   \<and> (truthy (get_prop (assign (assign [] Defaults) (caps this)) DIALOGFLOW_PROJECT_ID)
      \<and> truthy (get_prop (assign (assign [] Defaults) (caps this)) DIALOGFLOW_CLIENT_EMAIL)
      \<and> \<not> truthy (get_prop (assign (assign [] Defaults) (caps this)) DIALOGFLOW_PRIVATE_KEY)
      \<longrightarrow> snd (Validate this) = Throw (Error ''DIALOGFLOW_PRIVATE_KEY capability required''))
   \<and> (s \<in> set (getContextSuffixes (assign (assign [] Defaults) (caps this)))
      \<and> (\<not> truthy (get_prop (assign (assign [] Defaults) (caps this))
                      (DIALOGFLOW_INPUT_CONTEXT_NAME @ s))
         \<or> \<not> truthy (get_prop (assign (assign [] Defaults) (caps this))
                        (DIALOGFLOW_INPUT_CONTEXT_LIFESPAN @ s)))
      \<longrightarrow> (\<exists>err. snd (Validate this) = Throw err))
   \<and> snd (Validate this) \<noteq> Return (Rejected e)
   \<and> (truthy (get_prop (assign (assign [] Defaults) (caps this)) DIALOGFLOW_PROJECT_ID)
      \<and> truthy (get_prop (assign (assign [] Defaults) (caps this)) DIALOGFLOW_CLIENT_EMAIL)
      \<and> truthy (get_prop (assign (assign [] Defaults) (caps this)) DIALOGFLOW_PRIVATE_KEY)
      \<and> kbAccepted (get_prop (assign (assign [] Defaults) (caps this)) DIALOGFLOW_ENABLE_KNOWLEDGEBASE)
      \<and> list_all (\<lambda>s. truthy (get_prop (assign (assign [] Defaults) (caps this))
                                  (DIALOGFLOW_INPUT_CONTEXT_NAME @ s))
                       \<and> truthy (get_prop (assign (assign [] Defaults) (caps this))
                                    (DIALOGFLOW_INPUT_CONTEXT_LIFESPAN @ s)))
           (getContextSuffixes (assign (assign [] Defaults) (caps this)))
      \<longrightarrow> snd (Validate this) = Return (Resolved ()))"
proof -
  let ?cs = "assign (assign [] Defaults) (caps this)"
  have missing: "map_of ?cs k = None \<Longrightarrow> \<not> truthy (get_prop ?cs k)"
    by (simp add: get_prop_def)
  have suffix: "\<exists>err. snd (Validate this) = Throw err"
    if "s \<in> set (getContextSuffixes ?cs)"
      and "\<not> truthy (get_prop ?cs (DIALOGFLOW_INPUT_CONTEXT_NAME @ s))
           \<or> \<not> truthy (get_prop ?cs (DIALOGFLOW_INPUT_CONTEXT_LIFESPAN @ s))"
  proof -
    from that have "\<not> list_all (\<lambda>s. truthy (get_prop ?cs (DIALOGFLOW_INPUT_CONTEXT_NAME @ s))
                      \<and> truthy (get_prop ?cs (DIALOGFLOW_INPUT_CONTEXT_LIFESPAN @ s)))
                  (getContextSuffixes ?cs)"
      by (auto simp: list_all_iff)
    then have "checkContextSuffixes ?cs (getContextSuffixes ?cs) \<noteq> None"
      by (simp add: checkContextSuffixes_None)
    then show ?thesis
      by (auto simp: Validate_result Let_def split: option.splits)
  qed
  have never: "snd (Validate this) \<noteq> Return (Rejected e)"
    by (simp add: Validate_result Let_def split: option.splits)
  have pass: "snd (Validate this) = Return (Resolved ())"
    if "truthy (get_prop ?cs DIALOGFLOW_PROJECT_ID)"
      and "truthy (get_prop ?cs DIALOGFLOW_CLIENT_EMAIL)"
      and "truthy (get_prop ?cs DIALOGFLOW_PRIVATE_KEY)"
      and "kbAccepted (get_prop ?cs DIALOGFLOW_ENABLE_KNOWLEDGEBASE)"
      and "list_all (\<lambda>s. truthy (get_prop ?cs (DIALOGFLOW_INPUT_CONTEXT_NAME @ s))
                       \<and> truthy (get_prop ?cs (DIALOGFLOW_INPUT_CONTEXT_LIFESPAN @ s)))
             (getContextSuffixes ?cs)"
  proof -
    from that(5) have "checkContextSuffixes ?cs (getContextSuffixes ?cs) = None"
      by (simp add: checkContextSuffixes_None)
    with that(1-4) show ?thesis by (simp add: Validate_result Let_def)
  qed
  have first: "\<not> truthy (get_prop ?cs DIALOGFLOW_PROJECT_ID)
      \<Longrightarrow> snd (Validate this) = Throw (Error ''DIALOGFLOW_PROJECT_ID capability required'')"
    by (simp add: Validate_result Let_def)
  have second: "truthy (get_prop ?cs DIALOGFLOW_PROJECT_ID)
      \<Longrightarrow> \<not> truthy (get_prop ?cs DIALOGFLOW_CLIENT_EMAIL)
      \<Longrightarrow> snd (Validate this) = Throw (Error ''DIALOGFLOW_CLIENT_EMAIL capability required'')"
    by (simp add: Validate_result Let_def)
  have third: "truthy (get_prop ?cs DIALOGFLOW_PROJECT_ID)
      \<Longrightarrow> truthy (get_prop ?cs DIALOGFLOW_CLIENT_EMAIL)
      \<Longrightarrow> \<not> truthy (get_prop ?cs DIALOGFLOW_PRIVATE_KEY)
      \<Longrightarrow> snd (Validate this) = Throw (Error ''DIALOGFLOW_PRIVATE_KEY capability required'')"
    by (simp add: Validate_result Let_def)
  from missing first second third suffix never pass show ?thesis by blast
qed

text \<open>
  The sample capabilities pass; without a project id, a client email or a private key the
  call throws; so it does with a second context name \<open>_1\<close> that has no lifespan.
\<close>

theorem C6_Validate_witness:
  "snd (Validate (BotiumConnectorDialogflow sample_caps)) = Return (Resolved ())
   \<and> snd (Validate (BotiumConnectorDialogflow []))
       = Throw (Error ''DIALOGFLOW_PROJECT_ID capability required'')
   \<and> snd (Validate (BotiumConnectorDialogflow [(DIALOGFLOW_PROJECT_ID, JStr ''p'')]))
       = Throw (Error ''DIALOGFLOW_CLIENT_EMAIL capability required'')
   \<and> snd (Validate (BotiumConnectorDialogflow
              [(DIALOGFLOW_PROJECT_ID, JStr ''p''), (DIALOGFLOW_CLIENT_EMAIL, JStr ''e'')]))
       = Throw (Error ''DIALOGFLOW_PRIVATE_KEY capability required'')
   \<and> (\<exists>err. snd (Validate (BotiumConnectorDialogflow
              (sample_caps @ [(DIALOGFLOW_INPUT_CONTEXT_NAME @ ''_1'', JStr ''b'')]))) = Throw err)
   \<and> snd (Validate (BotiumConnectorDialogflow
              (sample_caps @ [(DIALOGFLOW_INPUT_CONTEXT_NAME @ ''_1'', JStr ''b'')])))
       = Throw (Error ''DIALOGFLOW_INPUT_CONTEXT_NAME_1 and DIALOGFLOW_INPUT_CONTEXT_LIFESPAN_1 capability required'')"
proof -
  have c1: "assign (assign [] Defaults) (caps (BotiumConnectorDialogflow sample_caps))
              = [(''DIALOGFLOW_LANGUAGE_CODE'', JStr ''en-US''),
                 (''DIALOGFLOW_FORCE_INTENT_RESOLUTION'', JBool True),
                 (''DIALOGFLOW_BUTTON_EVENTS'', JBool True),
                 (''DIALOGFLOW_ENABLE_KNOWLEDGEBASE'', JBool False),
                 (''DIALOGFLOW_FALLBACK_INTENTS'', JArr [JStr ''Default Fallback Intent'']),
                 (''DIALOGFLOW_PROJECT_ID'', JStr ''p''),
                 (''DIALOGFLOW_CLIENT_EMAIL'', JStr ''e''),
                 (''DIALOGFLOW_PRIVATE_KEY'', JStr ''k''),
                 (''DIALOGFLOW_INPUT_CONTEXT_NAME'', JStr ''a''),
                 (''DIALOGFLOW_INPUT_CONTEXT_LIFESPAN'', JStr ''2'')]"
    by code_simp
  have c5: "assign (assign [] Defaults) (caps (BotiumConnectorDialogflow
              (sample_caps @ [(DIALOGFLOW_INPUT_CONTEXT_NAME @ ''_1'', JStr ''b'')])))
              = [(''DIALOGFLOW_LANGUAGE_CODE'', JStr ''en-US''),
                 (''DIALOGFLOW_FORCE_INTENT_RESOLUTION'', JBool True),
                 (''DIALOGFLOW_BUTTON_EVENTS'', JBool True),
                 (''DIALOGFLOW_ENABLE_KNOWLEDGEBASE'', JBool False),
                 (''DIALOGFLOW_FALLBACK_INTENTS'', JArr [JStr ''Default Fallback Intent'']),
                 (''DIALOGFLOW_PROJECT_ID'', JStr ''p''),
                 (''DIALOGFLOW_CLIENT_EMAIL'', JStr ''e''),
                 (''DIALOGFLOW_PRIVATE_KEY'', JStr ''k''),
                 (''DIALOGFLOW_INPUT_CONTEXT_NAME'', JStr ''a''),
                 (''DIALOGFLOW_INPUT_CONTEXT_LIFESPAN'', JStr ''2''),
                 (''DIALOGFLOW_INPUT_CONTEXT_NAME_1'', JStr ''b'')]"
    by code_simp
  have s1: "getContextSuffixes (assign (assign [] Defaults) (caps (BotiumConnectorDialogflow sample_caps))) = [[]]"
    by code_simp
  have s5: "getContextSuffixes (assign (assign [] Defaults) (caps (BotiumConnectorDialogflow
              (sample_caps @ [(DIALOGFLOW_INPUT_CONTEXT_NAME @ ''_1'', JStr ''b'')])))) = [[], ''_1'']"
    by code_simp
  have a: "snd (Validate (BotiumConnectorDialogflow sample_caps)) = Return (Resolved ())"
    using C6_Validate[where this = "BotiumConnectorDialogflow sample_caps" and s = "[]"
      and k = "DIALOGFLOW_OUTPUT_PLATFORM"]
    unfolding s1 unfolding c1 by (simp add: get_prop_def kbAccepted_def Capabilities)
  have b: "snd (Validate (BotiumConnectorDialogflow []))
       = Throw (Error ''DIALOGFLOW_PROJECT_ID capability required'')"
    using C6_Validate[where this = "BotiumConnectorDialogflow []" and k = DIALOGFLOW_PROJECT_ID and s = "[]"]
    by (simp add: BotiumConnectorDialogflow_def Defaults_def assign_def get_prop_def Capabilities)
  have c: "snd (Validate (BotiumConnectorDialogflow [(DIALOGFLOW_PROJECT_ID, JStr ''p'')]))
       = Throw (Error ''DIALOGFLOW_CLIENT_EMAIL capability required'')"
    using C6_Validate[where this = "BotiumConnectorDialogflow [(DIALOGFLOW_PROJECT_ID, JStr ''p'')]"
      and k = DIALOGFLOW_CLIENT_EMAIL and s = "[]"]
    by (simp add: BotiumConnectorDialogflow_def Defaults_def assign_def get_prop_def Capabilities)
  have d: "snd (Validate (BotiumConnectorDialogflow
              [(DIALOGFLOW_PROJECT_ID, JStr ''p''), (DIALOGFLOW_CLIENT_EMAIL, JStr ''e'')]))
       = Throw (Error ''DIALOGFLOW_PRIVATE_KEY capability required'')"
    using C6_Validate[where this = "BotiumConnectorDialogflow
              [(DIALOGFLOW_PROJECT_ID, JStr ''p''), (DIALOGFLOW_CLIENT_EMAIL, JStr ''e'')]"
      and k = DIALOGFLOW_PRIVATE_KEY and s = "[]"]
    by (simp add: BotiumConnectorDialogflow_def Defaults_def assign_def get_prop_def Capabilities)
  have e: "\<exists>err. snd (Validate (BotiumConnectorDialogflow
              (sample_caps @ [(DIALOGFLOW_INPUT_CONTEXT_NAME @ ''_1'', JStr ''b'')]))) = Throw err"
    using C6_Validate[where this = "BotiumConnectorDialogflow
              (sample_caps @ [(DIALOGFLOW_INPUT_CONTEXT_NAME @ ''_1'', JStr ''b'')])"
      and k = "DIALOGFLOW_INPUT_CONTEXT_LIFESPAN @ ''_1''" and s = "''_1''"]
    unfolding s5 unfolding c5 by (simp add: get_prop_def Capabilities)
  have f: "snd (Validate (BotiumConnectorDialogflow
              (sample_caps @ [(DIALOGFLOW_INPUT_CONTEXT_NAME @ ''_1'', JStr ''b'')])))
       = Throw (Error ''DIALOGFLOW_INPUT_CONTEXT_NAME_1 and DIALOGFLOW_INPUT_CONTEXT_LIFESPAN_1 capability required'')"
    by code_simp
  from a b c d e f show ?thesis by blast
qed

subsection \<open>Rejected calls\<close>

text \<open>
  C7. Whenever the \<open>detectIntent\<close> call rejects with an error, the promise of \<open>UserSays\<close>
  rejects with a new Error whose message is \<open>Cannot send message to dialogflow container: \<close>
  followed by the message of that error. No call of \<open>UserSays\<close> hands more than one request
  to \<open>detectIntent\<close>, whatever the reply: there is no retry; with a session client and a
  pending collection it hands over exactly one.
\<close>

theorem C7_rejection_wrapped:
  "length (t_calls (UserSays E this m reply)) \<le> 1
   \<and> (t_calls (UserSays E this m (Inl err)) \<noteq> []
        \<longrightarrow> t_result (UserSays E this m (Inl err))
              = Return (Rejected (Error (''Cannot send message to dialogflow container: ''
                                          @ message err))))
   \<and> (sessionClient this = Some cl \<and> queryParams this = Some ps
         \<and> map_of ps ''contexts'' = Some (QContexts cs)
        \<longrightarrow> length (t_calls (UserSays E this m reply)) = 1)"
proof -
  have a: "length (t_calls (UserSays E this m reply)) \<le> 1"
    by (simp add: UserSays_def Let_def split: option.splits sum.splits prod.splits)
  have b: "t_calls (UserSays E this m (Inl err)) \<noteq> []
        \<Longrightarrow> t_result (UserSays E this m (Inl err))
              = Return (Rejected (Error (''Cannot send message to dialogflow container: ''
                                          @ message err)))"
    by (simp add: UserSays_def Let_def wrapError_def split: option.splits sum.splits)
  have c: "sessionClient this = Some cl \<Longrightarrow> queryParams this = Some ps
         \<Longrightarrow> map_of ps ''contexts'' = Some (QContexts cs)
        \<Longrightarrow> length (t_calls (UserSays E this m reply)) = 1"
    by (simp add: UserSays_calls)
  from a b c show ?thesis by blast
qed


text \<open>The started sample connector, with a service that answers \<open>UNAVAILABLE\<close>.\<close>

theorem C7_rejection_wrapped_witness:
  "t_calls (UserSays sample_env sample_started plain_msg (Inl (Error ''UNAVAILABLE''))) \<noteq> []
   \<and> length (t_calls (UserSays sample_env sample_started plain_msg (Inl (Error ''UNAVAILABLE'')))) = 1
   \<and> t_result (UserSays sample_env sample_started plain_msg (Inl (Error ''UNAVAILABLE'')))
       = Return (Rejected (Error ''Cannot send message to dialogflow container: UNAVAILABLE''))"
  using C7_rejection_wrapped[where E = sample_env and this = sample_started and m = plain_msg
      and reply = "Inl (Error ''UNAVAILABLE'')" and err = "Error ''UNAVAILABLE''"
      and cl = SessionsClient
      and ps = "[(''contexts'', QContexts [\<lparr> ctx_name = ''projects/p/agent/sessions/c/contexts/a'',
                      ctx_lifespanCount = Num 2, ctx_parameters = FalsyParameters JUndefined \<rparr>])]"
      and cs = "[\<lparr> ctx_name = ''projects/p/agent/sessions/c/contexts/a'',
                      ctx_lifespanCount = Num 2, ctx_parameters = FalsyParameters JUndefined \<rparr>]"]
  by (simp add: sample_started_eq model_defs)

subsection \<open>No session client\<close>

text \<open>
  C8. Called while there is no session client, \<open>UserSays\<close> returns a rejected promise whose
  error message is \<open>not built\<close>, hands no request to the client and leaves the connector,
  its stored query parameters included, as it was. There is no session client in a new
  connector, nor after \<open>Validate\<close> and \<open>Build\<close> (only \<open>Start\<close> sets one), nor after \<open>Stop\<close>.
\<close>

theorem C8_not_built:
  "(sessionClient this = None
      \<longrightarrow> UserSays E this m reply
            = \<lparr> t_state = this, t_calls = [],
                t_result = Return (Rejected (Error ''not built'')), t_queued = [] \<rparr>)
   \<and> message (Error ''not built'') = ''not built''
   \<and> sessionClient (BotiumConnectorDialogflow cs) = None
   \<and> sessionClient (fst (Validate (BotiumConnectorDialogflow cs))) = None
   \<and> sessionClient (fst (Build (fst (Validate (BotiumConnectorDialogflow cs))))) = None
   \<and> sessionClient (fst (Stop this')) = None"
  by (simp add: UserSays_def BotiumConnectorDialogflow_def Validate_def Build_def Stop_def Let_def
        split: option.splits)


text \<open>The sample connector, started and stopped again.\<close>

theorem C8_not_built_witness:
  "sessionClient (fst (Stop sample_started)) = None
   \<and> UserSays sample_env (fst (Stop sample_started)) plain_msg (Inr \<lparr> queryResult = empty_queryResult \<rparr>)
       = \<lparr> t_state = fst (Stop sample_started), t_calls = [],
           t_result = Return (Rejected (Error ''not built'')), t_queued = [] \<rparr>
   \<and> queryParams (t_state (UserSays sample_env (fst (Stop sample_started)) plain_msg
        (Inr \<lparr> queryResult = empty_queryResult \<rparr>))) = None"
  using C8_not_built[where this = "fst (Stop sample_started)" and E = sample_env and m = plain_msg
      and reply = "Inr \<lparr> queryResult = empty_queryResult \<rparr>" and this' = sample_started]
  by (simp add: Stop_def)

subsection \<open>Reset of the contexts\<close>

text \<open>The stored contexts through a turn, and what \<open>Start\<close> seeds.\<close>

lemma own_entries_falsy: "\<not> truthy q \<Longrightarrow> own_entries q = []"
  by (cases q rule: own_entries.cases) simp_all

lemma pendingD:
  "pending this = Some cs
   \<Longrightarrow> \<exists>ps. queryParams this = Some ps \<and> map_of ps ''contexts'' = Some (QContexts cs)"
  by (auto simp: pending_def split: option.splits qval.splits)

lemma map_of_QVal_None:
  "k \<notin> fst ` set xs \<Longrightarrow> map_of (rev (map (\<lambda>(k, v). (k, QVal v)) xs)) k = None"
  by (force simp: map_of_eq_None_iff)

lemma request_contexts:
  assumes "queryParams this = Some ps" and "map_of ps ''contexts'' = Some (QContexts cs)"
    and "''contexts'' \<notin> fst ` set (own_entries (SET_DIALOGFLOW_QUERYPARAMS m))"
  shows "map_of (rq_queryParams (buildRequest E this m)) ''contexts'' = Some (QContexts cs)"
proof -
  let ?q = "SET_DIALOGFLOW_QUERYPARAMS m"
  have "(if truthy ?q then own_entries ?q else []) = own_entries ?q"
    by (simp add: own_entries_falsy)
  then show ?thesis
    using assms by (simp add: buildRequest_def Let_def map_of_assign map_of_QVal_None)
qed

lemma UserSays_resolved_state:
  assumes "sessionClient this = Some cl" and "queryParams this = Some ps"
    and "map_of ps ''contexts'' = Some (QContexts cs)"
  shows "t_state (UserSays E this m (Inr r))
           = this\<lparr> queryParams := Some (AList.update ''contexts'' (QContexts [])
               (AList.update ''contexts''
                  (QContexts (mergeContexts cs
                     (extractCustomContexts E (caps this) (conversationId this)
                        (SET_DIALOGFLOW_CONTEXT m)))) ps)) \<rparr>"
  using assms(1) mergeStored_pending[OF assms(2,3)]
  by (simp add: UserSays_def Let_def split: prod.splits)

lemma UserSays_rejected_state:
  assumes "sessionClient this = Some cl" and "queryParams this = Some ps"
    and "map_of ps ''contexts'' = Some (QContexts cs)"
  shows "t_state (UserSays E this m (Inl err))
           = this\<lparr> queryParams := Some (AList.update ''contexts''
                  (QContexts (mergeContexts cs
                     (extractCustomContexts E (caps this) (conversationId this)
                        (SET_DIALOGFLOW_CONTEXT m)))) ps) \<rparr>"
  using assms(1) mergeStored_pending[OF assms(2,3)]
  by (simp add: UserSays_def Let_def)

lemma pending_update:
  "pending (this\<lparr> queryParams := Some (AList.update ''contexts'' (QContexts cs) ps') \<rparr>) = Some cs"
  by (simp add: pending_def update_conv')

lemma mergeContext_set: "set (mergeContext cs c) \<subseteq> insert c (set cs)"
proof (cases "\<exists>x\<in>set cs. ctx_name x = ctx_name c")
  case True
  from mergeContext_found[OF True] obtain i where "mergeContext cs c = cs[i := c]" by blast
  then show ?thesis using set_update_subset_insert[of cs i c] by simp
next
  case False
  then have "mergeContext cs c = cs @ [c]" by (intro mergeContext_not_found) simp
  then show ?thesis by auto
qed

lemma mergeContexts_set: "set (mergeContexts cs customs) \<subseteq> set cs \<union> set customs"
  unfolding mergeContexts_def
proof (induction customs arbitrary: cs)
  case Nil
  show ?case by simp
next
  case (Cons c customs)
  have "set (foldl mergeContext (mergeContext cs c) customs)
          \<subseteq> set (mergeContext cs c) \<union> set customs" by (rule Cons.IH)
  with mergeContext_set[of cs c] show ?case by auto
qed

lemma createInitialContexts_length:
  "createInitialContexts E this sfx = Inr cs \<Longrightarrow> length cs = length sfx"
  by (induction sfx arbitrary: cs) (auto split: sum.splits)

lemma listKnowledgeBases_caps: "listKnowledgeBases this listed = Inr this' \<Longrightarrow> caps this' = caps this"
  by (auto simp: listKnowledgeBases_def Let_def split: if_splits sum.splits option.splits)

lemma openSession_facts:
  "caps (openSession E this) = caps this" "sessionClient (openSession E this) \<noteq> None"
  by (simp_all add: openSession_def Let_def)

lemma Start_resolved:
  assumes "snd (Start E this uuid listed) = Resolved ()"
  shows "\<exists>cs. pending (fst (Start E this uuid listed)) = Some cs
           \<and> length cs = length (getContextSuffixes (caps this))
           \<and> sessionClient (fst (Start E this uuid listed)) \<noteq> None"
proof -
  let ?this1 = "this\<lparr> conversationId := JStr uuid, queryParams := Some [] \<rparr>"
  show ?thesis
  proof (cases "listKnowledgeBases ?this1 listed")
    case (Inl err)
    with assms show ?thesis by (simp add: Start_def)
  next
    case (Inr this2)
    from listKnowledgeBases_caps[OF Inr] have c2: "caps this2 = caps this" by simp
    let ?this3 = "openSession E this2"
    show ?thesis
    proof (cases "createInitialContexts E ?this3 (getContextSuffixes (caps ?this3))")
      case (Inl err)
      with Inr assms show ?thesis by (simp add: Start_def Let_def)
    next
      case cs: (Inr cs)
      from createInitialContexts_length[OF cs]
      have "length cs = length (getContextSuffixes (caps this))"
        by (simp add: openSession_facts c2)
      with Inr cs show ?thesis
        by (simp add: Start_def Let_def pending_def openSession_facts)
    qed
  qed
qed

text \<open>One turn on a connector with a session client and the pending collection \<open>cs\<close>.\<close>

lemma UserSays_turn:
  fixes E :: env and m :: msg and this :: connector and cs :: "df_context list"
  assumes s: "sessionClient this = Some cl" and p: "pending this = Some cs"
  defines "merged \<equiv> mergeContexts cs
             (extractCustomContexts E (caps this) (conversationId this) (SET_DIALOGFLOW_CONTEXT m))"
  shows "pending (t_state (UserSays E this m (Inr r))) = Some []"
    and "pending (t_state (UserSays E this m (Inl err))) = Some merged"
    and "sessionClient (t_state (UserSays E this m reply)) = Some cl"
    and "caps (t_state (UserSays E this m reply)) = caps this"
    and "conversationId (t_state (UserSays E this m reply)) = conversationId this"
    and "\<exists>rq. t_calls (UserSays E this m reply) = [rq]
           \<and> (''contexts'' \<notin> fst ` set (own_entries (SET_DIALOGFLOW_QUERYPARAMS m))
                \<longrightarrow> map_of (rq_queryParams rq) ''contexts'' = Some (QContexts merged))"
proof -
  from pendingD[OF p] obtain ps where
    ps: "queryParams this = Some ps" "map_of ps ''contexts'' = Some (QContexts cs)" by blast
  show "pending (t_state (UserSays E this m (Inr r))) = Some []"
    by (simp only: UserSays_resolved_state[OF s ps] pending_update)
  show "pending (t_state (UserSays E this m (Inl err))) = Some merged"
    by (simp only: UserSays_rejected_state[OF s ps] pending_update merged_def)
  have st: "sessionClient (t_state (UserSays E this m reply)) = Some cl
            \<and> caps (t_state (UserSays E this m reply)) = caps this
            \<and> conversationId (t_state (UserSays E this m reply)) = conversationId this"
  proof (cases reply)
    case (Inl e)
    then show ?thesis using s by (simp add: UserSays_rejected_state[OF s ps])
  next
    case (Inr r')
    then show ?thesis using s by (simp add: UserSays_resolved_state[OF s ps])
  qed
  then show "sessionClient (t_state (UserSays E this m reply)) = Some cl"
    and "caps (t_state (UserSays E this m reply)) = caps this"
    and "conversationId (t_state (UserSays E this m reply)) = conversationId this"
    by simp_all
  let ?this' = "this\<lparr> queryParams := Some (AList.update ''contexts'' (QContexts merged) ps) \<rparr>"
  have c: "t_calls (UserSays E this m reply) = [buildRequest E ?this' m]"
    using UserSays_calls[OF s ps, of E m reply] by (simp add: merged_def)
  have "''contexts'' \<notin> fst ` set (own_entries (SET_DIALOGFLOW_QUERYPARAMS m))
        \<Longrightarrow> map_of (rq_queryParams (buildRequest E ?this' m)) ''contexts'' = Some (QContexts merged)"
    by (rule request_contexts[where ps = "AList.update ''contexts'' (QContexts merged) ps"])
       (simp_all add: update_conv')
  with c show "\<exists>rq. t_calls (UserSays E this m reply) = [rq]
           \<and> (''contexts'' \<notin> fst ` set (own_entries (SET_DIALOGFLOW_QUERYPARAMS m))
                \<longrightarrow> map_of (rq_queryParams rq) ''contexts'' = Some (QContexts merged))"
    by blast
qed

lemma map_of_QVal_Some:
  "map_of (rev (map (\<lambda>(k, v). (k, QVal v)) xs)) k = Some x \<Longrightarrow> \<exists>v. x = QVal v"
  by (auto dest!: map_of_SomeD)

lemma request_contexts_only:
  assumes "queryParams this = Some ps" and "map_of ps ''contexts'' = Some (QContexts cs)"
    and "map_of (rq_queryParams (buildRequest E this m)) ''contexts'' = Some (QContexts c)"
  shows "c = cs"
proof -
  let ?xs = "if truthy (SET_DIALOGFLOW_QUERYPARAMS m)
             then own_entries (SET_DIALOGFLOW_QUERYPARAMS m) else []"
  show ?thesis
  proof (cases "map_of (rev (map (\<lambda>(k, v). (k, QVal v)) ?xs)) ''contexts''")
    case None
    with assms show ?thesis by (simp add: buildRequest_def Let_def map_of_assign)
  next
    case (Some x)
    from map_of_QVal_Some[OF Some] obtain v where "x = QVal v" by blast
    with Some assms show ?thesis by (simp add: buildRequest_def Let_def map_of_assign)
  qed
qed

lemma UserSays_request_only:
  assumes s: "sessionClient this = Some cl" and p: "pending this = Some cs"
  shows "\<exists>rq. t_calls (UserSays E this m reply) = [rq]
           \<and> (\<forall>c. map_of (rq_queryParams rq) ''contexts'' = Some (QContexts c)
                 \<longrightarrow> c = mergeContexts cs (customContextsOf E this m))"
proof -
  from pendingD[OF p] obtain ps where
    ps: "queryParams this = Some ps" "map_of ps ''contexts'' = Some (QContexts cs)" by blast
  let ?merged = "mergeContexts cs (customContextsOf E this m)"
  let ?this' = "this\<lparr> queryParams := Some (AList.update ''contexts'' (QContexts ?merged) ps) \<rparr>"
  have c: "t_calls (UserSays E this m reply) = [buildRequest E ?this' m]"
    using UserSays_calls[OF s ps, of E m reply] by (simp add: customContextsOf_def)
  have "\<And>c. map_of (rq_queryParams (buildRequest E ?this' m)) ''contexts'' = Some (QContexts c)
        \<Longrightarrow> c = ?merged"
    by (rule request_contexts_only[where ps = "AList.update ''contexts'' (QContexts ?merged) ps"
          and this = ?this' and E = E and m = m]) (simp_all add: update_conv')
  with c show ?thesis by blast
qed

text \<open>Through any sequence of turns the pending contexts come from the messages or were there.\<close>

lemma stateAfter_invariant:
  assumes "sessionClient this = Some cl" and "pending this = Some cs" and "set cs \<subseteq> A"
  shows "\<exists>cs'. sessionClient (stateAfter E this later) = Some cl
           \<and> caps (stateAfter E this later) = caps this
           \<and> conversationId (stateAfter E this later) = conversationId this
           \<and> pending (stateAfter E this later) = Some cs'
           \<and> set cs' \<subseteq> A \<union> (\<Union>(m, r)\<in>set later. set (customContextsOf E this m))"
  using assms
proof (induction later arbitrary: this cs A)
  case Nil
  then show ?case by simp
next
  case (Cons mr later)
  obtain m reply where mr: "mr = (m, reply)" by (cases mr)
  let ?s = "t_state (UserSays E this m reply)"
  let ?cu = "customContextsOf E this m"
  have s1: "sessionClient ?s = Some cl" by (rule UserSays_turn(3)[OF Cons.prems(1,2)])
  have c1: "caps ?s = caps this" by (rule UserSays_turn(4)[OF Cons.prems(1,2)])
  have i1: "conversationId ?s = conversationId this" by (rule UserSays_turn(5)[OF Cons.prems(1,2)])
  have "\<exists>cs1. pending ?s = Some cs1 \<and> set cs1 \<subseteq> A \<union> set ?cu"
  proof (cases reply)
    case (Inl err)
    have "pending ?s = Some (mergeContexts cs ?cu)"
      unfolding Inl customContextsOf_def by (rule UserSays_turn(2)[OF Cons.prems(1,2)])
    with mergeContexts_set[of cs ?cu] Cons.prems(3) show ?thesis by auto
  next
    case (Inr r)
    have "pending ?s = Some []" unfolding Inr by (rule UserSays_turn(1)[OF Cons.prems(1,2)])
    then show ?thesis by simp
  qed
  then obtain cs1 where p1: "pending ?s = Some cs1" and sub: "set cs1 \<subseteq> A \<union> set ?cu" by blast
  have cu: "\<And>m'. customContextsOf E ?s m' = customContextsOf E this m'"
    by (simp add: customContextsOf_def c1 i1)
  from Cons.IH[OF s1 p1 sub] obtain cs' where
    r: "sessionClient (stateAfter E ?s later) = Some cl"
       "caps (stateAfter E ?s later) = caps ?s"
       "conversationId (stateAfter E ?s later) = conversationId ?s"
       "pending (stateAfter E ?s later) = Some cs'"
       "set cs' \<subseteq> A \<union> set ?cu \<union> (\<Union>(m, r)\<in>set later. set (customContextsOf E ?s m))"
    by blast
  from r(5) have "set cs' \<subseteq> A \<union> (\<Union>(m, r)\<in>set (mr # later). set (customContextsOf E this m))"
    unfolding cu mr by auto
  with r(1-4) c1 i1 mr show ?case by auto
qed


lemma contexts_two_turns:
  "(sessionClient this = Some cl \<and> pending this = Some cs
      \<longrightarrow> pending (t_state (UserSays E this m1 (Inr r1))) = Some []
        \<and> (\<exists>rq1. t_calls (UserSays E this m1 (Inr r1)) = [rq1]
              \<and> (''contexts'' \<notin> fst ` set (own_entries (SET_DIALOGFLOW_QUERYPARAMS m1))
                   \<longrightarrow> map_of (rq_queryParams rq1) ''contexts''
                         = Some (QContexts (mergeContexts cs
                             (extractCustomContexts E (caps this) (conversationId this)
                                (SET_DIALOGFLOW_CONTEXT m1))))))
        \<and> (\<exists>rq2. t_calls (UserSays E (t_state (UserSays E this m1 (Inr r1))) m2 reply2) = [rq2]
              \<and> (''contexts'' \<notin> fst ` set (own_entries (SET_DIALOGFLOW_QUERYPARAMS m2))
                   \<longrightarrow> map_of (rq_queryParams rq2) ''contexts''
                         = Some (QContexts (mergeContexts []
                             (extractCustomContexts E (caps this) (conversationId this)
                                (SET_DIALOGFLOW_CONTEXT m2)))))))
   \<and> set (mergeContexts [] customs) \<subseteq> set customs
   \<and> (snd (Start E this0 uuid listed) = Resolved ()
      \<longrightarrow> (\<exists>cs0. pending (fst (Start E this0 uuid listed)) = Some cs0
             \<and> length cs0 = length (getContextSuffixes (caps this0))
             \<and> sessionClient (fst (Start E this0 uuid listed)) \<noteq> None))"
proof -
  have turns: "pending (t_state (UserSays E this m1 (Inr r1))) = Some []
        \<and> (\<exists>rq1. t_calls (UserSays E this m1 (Inr r1)) = [rq1]
              \<and> (''contexts'' \<notin> fst ` set (own_entries (SET_DIALOGFLOW_QUERYPARAMS m1))
                   \<longrightarrow> map_of (rq_queryParams rq1) ''contexts''
                         = Some (QContexts (mergeContexts cs
                             (extractCustomContexts E (caps this) (conversationId this)
                                (SET_DIALOGFLOW_CONTEXT m1))))))
        \<and> (\<exists>rq2. t_calls (UserSays E (t_state (UserSays E this m1 (Inr r1))) m2 reply2) = [rq2]
              \<and> (''contexts'' \<notin> fst ` set (own_entries (SET_DIALOGFLOW_QUERYPARAMS m2))
                   \<longrightarrow> map_of (rq_queryParams rq2) ''contexts''
                         = Some (QContexts (mergeContexts []
                             (extractCustomContexts E (caps this) (conversationId this)
                                (SET_DIALOGFLOW_CONTEXT m2))))))"
    if s: "sessionClient this = Some cl" and p: "pending this = Some cs"
  proof -
    let ?s1 = "t_state (UserSays E this m1 (Inr r1))"
    have p1: "pending ?s1 = Some []" by (rule UserSays_turn(1)[OF s p])
    have s1: "sessionClient ?s1 = Some cl" by (rule UserSays_turn(3)[OF s p])
    have c1: "caps ?s1 = caps this" by (rule UserSays_turn(4)[OF s p])
    have i1: "conversationId ?s1 = conversationId this" by (rule UserSays_turn(5)[OF s p])
    note r1 = UserSays_turn(6)[OF s p, of E m1 "Inr r1"]
    note r2 = UserSays_turn(6)[OF s1 p1, of E m2 reply2, unfolded c1 i1]
    from p1 r1 r2 show ?thesis by blast
  qed
  have sub: "set (mergeContexts [] customs) \<subseteq> set customs"
    using mergeContexts_set[of "[]" customs] by simp
  note st = Start_resolved[of E this0 uuid listed]
  from turns sub st show ?thesis by blast
qed

text \<open>
  C9, as the code has it. When the \<open>detectIntent\<close> call of a turn resolves,
  \<open>this.queryParams.contexts\<close> is reset to the empty array before the response is
  processed, whatever the processing does; when the call rejects, the merged contexts stay
  pending. The contexts pending before the turn (the initial contexts seeded by \<open>Start\<close>,
  which resolves only with a session client and one context per suffix) and the custom
  contexts of the message are merged into the \<open>contexts\<close> of the one request of that turn,
  unless \<open>msg.SET_DIALOGFLOW_QUERYPARAMS\<close> has a \<open>contexts\<close> member of its own. After a
  resolved turn, through any sequence \<open>later\<close> of further turns, resolved or rejected, the
  session client stays and every further call hands over one request; the context list of
  that request holds nothing but custom contexts of the messages sent after the resolved
  turn, so nothing that was not supplied again.
\<close>

theorem C9_contexts_reset_amended:
  "(sessionClient this = Some cl \<and> pending this = Some cs
      \<longrightarrow> pending (t_state (UserSays E this m1 (Inr r1))) = Some []
        \<and> (\<exists>rq1. t_calls (UserSays E this m1 (Inr r1)) = [rq1]
              \<and> (''contexts'' \<notin> fst ` set (own_entries (SET_DIALOGFLOW_QUERYPARAMS m1))
                   \<longrightarrow> map_of (rq_queryParams rq1) ''contexts''
                         = Some (QContexts (mergeContexts cs
                             (extractCustomContexts E (caps this) (conversationId this)
                                (SET_DIALOGFLOW_CONTEXT m1))))))
        \<and> (\<exists>rq2. t_calls (UserSays E (t_state (UserSays E this m1 (Inr r1))) m2 reply2) = [rq2]
              \<and> (''contexts'' \<notin> fst ` set (own_entries (SET_DIALOGFLOW_QUERYPARAMS m2))
                   \<longrightarrow> map_of (rq_queryParams rq2) ''contexts''
                         = Some (QContexts (mergeContexts []
                             (extractCustomContexts E (caps this) (conversationId this)
                                (SET_DIALOGFLOW_CONTEXT m2)))))))
   \<and> set (mergeContexts [] customs) \<subseteq> set customs
   \<and> (snd (Start E this0 uuid listed) = Resolved ()
      \<longrightarrow> (\<exists>cs0. pending (fst (Start E this0 uuid listed)) = Some cs0
             \<and> length cs0 = length (getContextSuffixes (caps this0))
             \<and> sessionClient (fst (Start E this0 uuid listed)) \<noteq> None))
   \<and> (sessionClient this = Some cl \<and> pending this = Some cs
      \<longrightarrow> sessionClient (t_state (UserSays E this m1 reply1)) = Some cl
        \<and> pending (t_state (UserSays E this m1 (Inl err)))
            = Some (mergeContexts cs (customContextsOf E this m1))
        \<and> sessionClient (stateAfter E (t_state (UserSays E this m1 (Inr r1))) later) = Some cl
        \<and> (\<exists>rq. t_calls (UserSays E (stateAfter E (t_state (UserSays E this m1 (Inr r1))) later)
                         m reply) = [rq]
              \<and> (\<forall>c. map_of (rq_queryParams rq) ''contexts'' = Some (QContexts c)
                    \<longrightarrow> set c \<subseteq> (\<Union>(m', r')\<in>set later. set (customContextsOf E this m'))
                                  \<union> set (customContextsOf E this m))))"
proof -
  have chain: "sessionClient (t_state (UserSays E this m1 reply1)) = Some cl
        \<and> pending (t_state (UserSays E this m1 (Inl err)))
            = Some (mergeContexts cs (customContextsOf E this m1))
        \<and> sessionClient (stateAfter E (t_state (UserSays E this m1 (Inr r1))) later) = Some cl
        \<and> (\<exists>rq. t_calls (UserSays E (stateAfter E (t_state (UserSays E this m1 (Inr r1))) later)
                         m reply) = [rq]
              \<and> (\<forall>c. map_of (rq_queryParams rq) ''contexts'' = Some (QContexts c)
                    \<longrightarrow> set c \<subseteq> (\<Union>(m', r')\<in>set later. set (customContextsOf E this m'))
                                  \<union> set (customContextsOf E this m)))"
    if s: "sessionClient this = Some cl" and p: "pending this = Some cs"
  proof -
    let ?s1 = "t_state (UserSays E this m1 (Inr r1))"
    let ?sn = "stateAfter E ?s1 later"
    have a: "sessionClient (t_state (UserSays E this m1 reply1)) = Some cl"
      by (rule UserSays_turn(3)[OF s p])
    have b: "pending (t_state (UserSays E this m1 (Inl err)))
               = Some (mergeContexts cs (customContextsOf E this m1))"
      unfolding customContextsOf_def by (rule UserSays_turn(2)[OF s p])
    have p1: "pending ?s1 = Some []" by (rule UserSays_turn(1)[OF s p])
    have s1: "sessionClient ?s1 = Some cl" by (rule UserSays_turn(3)[OF s p])
    have c1: "caps ?s1 = caps this" by (rule UserSays_turn(4)[OF s p])
    have i1: "conversationId ?s1 = conversationId this" by (rule UserSays_turn(5)[OF s p])
    have cu: "\<And>x. customContextsOf E ?s1 x = customContextsOf E this x"
      by (simp add: customContextsOf_def c1 i1)
    from stateAfter_invariant[OF s1 p1, of "{}" E later] obtain cs' where
      n: "sessionClient ?sn = Some cl" "caps ?sn = caps ?s1"
         "conversationId ?sn = conversationId ?s1" "pending ?sn = Some cs'"
         "set cs' \<subseteq> (\<Union>(m', r')\<in>set later. set (customContextsOf E this m'))"
      unfolding cu by auto
    have cn: "customContextsOf E ?sn m = customContextsOf E this m"
      by (simp add: customContextsOf_def n(2,3) c1 i1)
    from UserSays_request_only[OF n(1) n(4), of E m reply] obtain rq where
      rq: "t_calls (UserSays E ?sn m reply) = [rq]"
          "\<And>c. map_of (rq_queryParams rq) ''contexts'' = Some (QContexts c)
                \<Longrightarrow> c = mergeContexts cs' (customContextsOf E this m)"
      unfolding cn by blast
    have "\<And>c. map_of (rq_queryParams rq) ''contexts'' = Some (QContexts c)
          \<Longrightarrow> set c \<subseteq> (\<Union>(m', r')\<in>set later. set (customContextsOf E this m'))
                        \<union> set (customContextsOf E this m)"
    proof -
      fix c assume "map_of (rq_queryParams rq) ''contexts'' = Some (QContexts c)"
      then have "c = mergeContexts cs' (customContextsOf E this m)" by (rule rq(2))
      with mergeContexts_set[of cs' "customContextsOf E this m"] n(5) show
        "set c \<subseteq> (\<Union>(m', r')\<in>set later. set (customContextsOf E this m'))
                  \<union> set (customContextsOf E this m)" by blast
    qed
    with a b n(1) rq(1) show ?thesis by blast
  qed
  note two = contexts_two_turns[of this cl cs E m1 r1 m2 reply2 customs this0 uuid listed]
  from two chain show ?thesis by blast
qed

text \<open>
  The sample connector starts with the initial context \<open>a\<close>; the first message adds \<open>b\<close>,
  the second adds nothing. After the first turn, a turn that sets \<open>d\<close> and is rejected
  leaves \<open>d\<close>, and nothing else, for the request that follows.
\<close>

theorem C9_contexts_reset_amended_witness:
  "sessionClient sample_started = Some SessionsClient
   \<and> pending sample_started
       = Some [\<lparr> ctx_name = ''projects/p/agent/sessions/c/contexts/a'', ctx_lifespanCount = Num 2,
                 ctx_parameters = FalsyParameters JUndefined \<rparr>]
   \<and> map rq_queryParams (t_calls (UserSays sample_env sample_started
          (plain_msg\<lparr> SET_DIALOGFLOW_CONTEXT := JObj [(''b'', JStr ''3'')] \<rparr>)
          (Inr \<lparr> queryResult = empty_queryResult \<rparr>)))
       = [[(''contexts'',
            QContexts [\<lparr> ctx_name = ''projects/p/agent/sessions/c/contexts/a'',
                         ctx_lifespanCount = Num 2, ctx_parameters = FalsyParameters JUndefined \<rparr>,
                       sample_context ''b'' (Num 3)])]]
   \<and> pending (t_state (UserSays sample_env sample_started
          (plain_msg\<lparr> SET_DIALOGFLOW_CONTEXT := JObj [(''b'', JStr ''3'')] \<rparr>)
          (Inr \<lparr> queryResult = empty_queryResult \<rparr>))) = Some []
   \<and> map rq_queryParams (t_calls (UserSays sample_env
          (t_state (UserSays sample_env sample_started
             (plain_msg\<lparr> SET_DIALOGFLOW_CONTEXT := JObj [(''b'', JStr ''3'')] \<rparr>)
             (Inr \<lparr> queryResult = empty_queryResult \<rparr>)))
          plain_msg (Inr \<lparr> queryResult = empty_queryResult \<rparr>)))
       = [[(''contexts'', QContexts [])]]
   \<and> map rq_queryParams (t_calls (UserSays sample_env
          (stateAfter sample_env
             (t_state (UserSays sample_env sample_started
                (plain_msg\<lparr> SET_DIALOGFLOW_CONTEXT := JObj [(''b'', JStr ''3'')] \<rparr>)
                (Inr \<lparr> queryResult = empty_queryResult \<rparr>)))
             [(plain_msg\<lparr> SET_DIALOGFLOW_CONTEXT := JObj [(''d'', JStr ''1'')] \<rparr>,
               Inl (Error ''down''))])
          plain_msg (Inr \<lparr> queryResult = empty_queryResult \<rparr>)))
       = [[(''contexts'', QContexts [sample_context ''d'' (Num 1)])]]
   \<and> snd (Start sample_env (fst (Build (fst (Validate (BotiumConnectorDialogflow sample_caps)))))
            ''c'' (Inr None)) = Resolved ()"
proof -
  let ?a = "\<lparr> ctx_name = ''projects/p/agent/sessions/c/contexts/a'', ctx_lifespanCount = Num 2,
              ctx_parameters = FalsyParameters JUndefined \<rparr>"
  let ?m1 = "plain_msg\<lparr> SET_DIALOGFLOW_CONTEXT := JObj [(''b'', JStr ''3'')] \<rparr>"
  let ?r = "\<lparr> queryResult = empty_queryResult \<rparr>"
  have s: "sessionClient sample_started = Some SessionsClient"
    by (simp add: sample_started_eq)
  have p: "pending sample_started = Some [?a]"
    by (simp add: sample_started_eq pending_def)
  have st: "snd (Start sample_env (fst (Build (fst (Validate (BotiumConnectorDialogflow sample_caps)))))
            ''c'' (Inr None)) = Resolved ()"
    by code_simp
  have c1: "map rq_queryParams (t_calls (UserSays sample_env sample_started ?m1 (Inr ?r)))
       = [[(''contexts'', QContexts [?a, sample_context ''b'' (Num 3)])]]"
    by code_simp
  have c2: "map rq_queryParams (t_calls (UserSays sample_env
          (t_state (UserSays sample_env sample_started ?m1 (Inr ?r))) plain_msg (Inr ?r)))
       = [[(''contexts'', QContexts [])]]"
    by code_simp
  have c3: "map rq_queryParams (t_calls (UserSays sample_env
          (stateAfter sample_env (t_state (UserSays sample_env sample_started ?m1 (Inr ?r)))
             [(plain_msg\<lparr> SET_DIALOGFLOW_CONTEXT := JObj [(''d'', JStr ''1'')] \<rparr>,
               Inl (Error ''down''))])
          plain_msg (Inr ?r)))
       = [[(''contexts'', QContexts [sample_context ''d'' (Num 1)])]]"
    by code_simp
  have p1: "pending (t_state (UserSays sample_env sample_started ?m1 (Inr ?r))) = Some []"
    using s p
      C9_contexts_reset_amended[where this = sample_started and cl = SessionsClient
        and cs = "[?a]" and E = sample_env and ?m1.0 = ?m1 and ?r1.0 = ?r and ?m2.0 = plain_msg
        and ?reply2.0 = "Inr ?r" and customs = "[]"
        and this0 = "fst (Build (fst (Validate (BotiumConnectorDialogflow sample_caps))))"
        and uuid = "''c''" and listed = "Inr None" and ?reply1.0 = "Inr ?r"
        and err = "Error ''down''" and m = plain_msg and reply = "Inr ?r"
        and later = "[(plain_msg\<lparr> SET_DIALOGFLOW_CONTEXT := JObj [(''d'', JStr ''1'')] \<rparr>,
                       Inl (Error ''down''))]"]
    by simp
  from s p c1 p1 c2 c3 st show ?thesis by blast
qed

text \<open>
  C9 as stated fails: the initial contexts need not be in any outgoing request. A first
  message whose \<open>SET_DIALOGFLOW_QUERYPARAMS\<close> is \<open>{contexts: []}\<close> replaces the \<open>contexts\<close>
  of the request, the turn succeeds and resets the collection, and the next request has no
  context either.
\<close>

theorem C9_contexts_reset_counterexample:
  "pending sample_started
     = Some [\<lparr> ctx_name = ''projects/p/agent/sessions/c/contexts/a'', ctx_lifespanCount = Num 2,
               ctx_parameters = FalsyParameters JUndefined \<rparr>]
   \<and> t_result (UserSays sample_env sample_started
          (plain_msg\<lparr> SET_DIALOGFLOW_QUERYPARAMS := JObj [(''contexts'', JArr [])] \<rparr>)
          (Inr \<lparr> queryResult = empty_queryResult \<rparr>)) = Return (Resolved ())
   \<and> map rq_queryParams (t_calls (UserSays sample_env sample_started
          (plain_msg\<lparr> SET_DIALOGFLOW_QUERYPARAMS := JObj [(''contexts'', JArr [])] \<rparr>)
          (Inr \<lparr> queryResult = empty_queryResult \<rparr>)))
       = [[(''contexts'', QVal (JArr []))]]
   \<and> map rq_queryParams (t_calls (UserSays sample_env
          (t_state (UserSays sample_env sample_started
             (plain_msg\<lparr> SET_DIALOGFLOW_QUERYPARAMS := JObj [(''contexts'', JArr [])] \<rparr>)
             (Inr \<lparr> queryResult = empty_queryResult \<rparr>)))
          plain_msg (Inr \<lparr> queryResult = empty_queryResult \<rparr>)))
       = [[(''contexts'', QContexts [])]]"
  by code_simp

subsection \<open>Lifespan of a custom context\<close>

text \<open>\<open>parseInt\<close> throws exactly on the values that have no string conversion.\<close>

lemma to_string_convertible_aux:
  shows "convertible v \<longleftrightarrow> (\<exists>s. to_string v = Inr s)"
    and "list_all convertible xs \<longleftrightarrow> (\<exists>s. join_elements xs = Inr s)"
proof (induction v and xs rule: to_string_join_elements.induct)
  case (1 p) show ?case by simp
next
  case (2 xs) then show ?case by simp
next
  case (3 kvs) show ?case by simp
next
  case 4 show ?case by simp
next
  case (5 x xs)
  then show ?case
    by (cases "x = JUndefined \<or> x = JNull") (auto split: sum.splits)
qed

lemma to_string_convertible: "convertible v \<longleftrightarrow> (\<exists>s. to_string v = Inr s)"
  by (rule to_string_convertible_aux(1))

lemma parseInt_throws_iff: "(\<exists>err. parseInt v = Inl err) \<longleftrightarrow> \<not> convertible v"
  by (cases "to_string v") (auto simp: parseInt_def to_string_convertible)

text \<open>
  C10, as the code has it. In \<open>_createCustomContext\<close> the \<open>parseInt\<close> conversion throws
  exactly when the lifespan argument has no string conversion, which is an object with an
  own \<open>toString\<close> member or an array that holds such a value; the \<open>catch\<close> branch then sets
  the lifespan to 1. On every other lifespan argument, every \<open>undefined\<close>, \<open>null\<close>, boolean,
  number and string among them, \<open>parseInt\<close> does not throw, and when the text does not parse
  as an integer the \<open>lifespanCount\<close> of the created context is \<open>NaN\<close> rather than 1.
\<close>

theorem C10_lifespan_amended:
  "((\<exists>err. parseInt lifespan = Inl err) \<longleftrightarrow> \<not> convertible lifespan)
   \<and> (\<not> convertible lifespan
        \<longrightarrow> ctx_lifespanCount (createCustomContext E cs conv n lifespan ps) = Num 1)
   \<and> (parseInt lifespan = Inr NaN
        \<longrightarrow> ctx_lifespanCount (createCustomContext E cs conv n lifespan ps) = NaN)
   \<and> convertible (JPrim p)
   \<and> parseInt (JPrim p) = Inr (parseInt_string (prim_to_string p))
   \<and> ctx_lifespanCount (createCustomContext E cs conv n (JPrim p) ps)
       = parseInt_string (prim_to_string p)"
proof -
  have "\<not> convertible lifespan
        \<Longrightarrow> ctx_lifespanCount (createCustomContext E cs conv n lifespan ps) = Num 1"
    using parseInt_throws_iff[of lifespan] by (auto simp: createCustomContext_def Let_def)
  then show ?thesis
    using parseInt_throws_iff[of lifespan]
    by (simp add: createCustomContext_def Let_def parseInt_def)
qed

text \<open>Lifespans with no string conversion, with no digits, missing, and with leading digits.\<close>

theorem C10_lifespan_amended_witness:
  "\<not> convertible (JObj [(''toString'', JNum ''1'')])
   \<and> ctx_lifespanCount (createCustomContext sample_env sample_caps (JStr ''c'') ''b''
        (JObj [(''toString'', JNum ''1'')]) JUndefined) = Num 1
   \<and> parseInt (JStr ''soon'') = Inr NaN
   \<and> ctx_lifespanCount (createCustomContext sample_env sample_caps (JStr ''c'') ''b''
        (JStr ''soon'') JUndefined) = NaN
   \<and> ctx_lifespanCount (createCustomContext sample_env sample_caps (JStr ''c'') ''b''
        JUndefined JUndefined) = NaN
   \<and> ctx_lifespanCount (createCustomContext sample_env sample_caps (JStr ''c'') ''b''
        (JStr '' 42 turns'') JUndefined) = Num 42"
  using
    C10_lifespan_amended[where lifespan = "JObj [(''toString'', JNum ''1'')]" and E = sample_env
      and cs = sample_caps and conv = "JStr ''c''" and n = "''b''" and ps = JUndefined
      and p = PUndefined]
    C10_lifespan_amended[where lifespan = "JStr ''soon''" and E = sample_env
      and cs = sample_caps and conv = "JStr ''c''" and n = "''b''" and ps = JUndefined
      and p = "PStr '' 42 turns''"]
  by (simp add: model_defs)

text \<open>
  C10 as stated fails: the claim has \<open>parseInt\<close> never throw and the \<open>catch\<close> branch
  unreachable. A message whose \<open>SET_DIALOGFLOW_CONTEXT\<close> is
  \<open>{b: {lifespan: {toString: 1}}}\<close> makes \<open>parseInt\<close> throw a TypeError, and the context
  created has the lifespan 1 of the \<open>catch\<close> branch.
\<close>

theorem C10_lifespan_counterexample:
  "parseInt (JObj [(''toString'', JNum ''1'')])
     = Inl (TypeError ''Cannot convert object to primitive value'')
   \<and> extractCustomContexts sample_env sample_caps (JStr ''c'')
        (JObj [(''b'', JObj [(''lifespan'', JObj [(''toString'', JNum ''1'')])])])
       = [sample_context ''b'' (Num 1)]"
  by (simp add: model_defs sample_caps_def)

end
